theory Spec2Isabelle
  imports Main
begin

section \<open>Event payloads\<close>

text \<open>
  The socket handlers of the server receive whatever value the client put on the wire, and
  read its fields by name (\<^verbatim>\<open>data.roomId\<close>, \<^verbatim>\<open>data.userId\<close>, ...). A payload is
  therefore a JavaScript value; an object is the list of its keys and values, the first
  binding of a key being the one that is read. Dates are numbers (milliseconds).
\<close>

datatype json =
    JUndefined
  | JNull
  | JBool bool
  | JNum int
  | JStr string
  | JArr "json list"
  | JObj "(string \<times> json) list"

datatype error = TypeError

text \<open>
  \<^verbatim>\<open>data.k\<close> throws a TypeError when \<^verbatim>\<open>data\<close> is \<^verbatim>\<open>null\<close> or
  \<^verbatim>\<open>undefined\<close>; on an object it is the value of the key, \<^verbatim>\<open>undefined\<close> when the
  key is absent. None of the keys the handlers read exists on a boolean, a number, a
  string or an array, where the access therefore gives \<^verbatim>\<open>undefined\<close> too.
\<close>

fun nullish :: "json \<Rightarrow> bool" where
  "nullish JUndefined = True"
| "nullish JNull = True"
| "nullish _ = False"

fun get_prop :: "json \<Rightarrow> string \<Rightarrow> json" where
  "get_prop (JObj kvs) k = (case map_of kvs k of Some v \<Rightarrow> v | None \<Rightarrow> JUndefined)"
| "get_prop _ k = JUndefined"

fun keys :: "json \<Rightarrow> string list" where
  "keys (JObj kvs) = map fst kvs"
| "keys _ = []"

section \<open>The socket.io server: rooms and broadcast\<close>

text \<open>
  The server keeps no room table of its own: \<^verbatim>\<open>socket.join\<close>, \<^verbatim>\<open>socket.leave\<close>
  and \<^verbatim>\<open>socket.to(room).emit\<close> are calls into socket.io. The library is modelled by
  its documented contract: a room is a set of socket ids; \<^verbatim>\<open>join\<close> adds the socket to
  the set and \<^verbatim>\<open>leave\<close> removes it; \<^verbatim>\<open>socket.to(room).emit(ev, data)\<close> sends the
  event to every socket in the room except the sender; a new socket joins the room named
  by its own id; a socket that disconnects has left all its rooms when its
  \<^verbatim>\<open>disconnect\<close> listeners run. Room names are compared by value, which is how
  JavaScript compares the strings the client sends.
\<close>

type_synonym sid = string

record io_server =
  sockets :: "sid set"
  rooms :: "json \<Rightarrow> sid set"

record emission =
  ev :: string
  payload :: json
  recipients :: "sid set"

definition subscribers :: "io_server \<Rightarrow> json \<Rightarrow> sid set" where
  "subscribers io r = rooms io r"

definition socket_join :: "io_server \<Rightarrow> sid \<Rightarrow> json \<Rightarrow> io_server" where
  "socket_join io s r = io\<lparr>rooms := (rooms io)(r := insert s (rooms io r))\<rparr>"

definition socket_leave :: "io_server \<Rightarrow> sid \<Rightarrow> json \<Rightarrow> io_server" where
  "socket_leave io s r = io\<lparr>rooms := (rooms io)(r := rooms io r - {s})\<rparr>"

definition socket_leave_all :: "io_server \<Rightarrow> sid \<Rightarrow> io_server" where
  "socket_leave_all io s = io\<lparr>rooms := (\<lambda>r. rooms io r - {s})\<rparr>"

definition socket_to_emit :: "io_server \<Rightarrow> sid \<Rightarrow> json \<Rightarrow> string \<Rightarrow> json \<Rightarrow> emission" where
  "socket_to_emit io s r e d = \<lparr>ev = e, payload = d, recipients = rooms io r - {s}\<rparr>"

section \<open>The socket handlers of the server\<close>

text \<open>
  \<^verbatim>\<open>io.on('connection', (socket) => { ... })\<close>: one function per listener, each taking
  the server state, the id of the socket the event arrived on and the payload. The
  \<^verbatim>\<open>console.log\<close> lines have no effect on the state and are left out. A listener that
  emits returns the emission, or the error thrown while reading the payload.
\<close>

definition connection :: "io_server \<Rightarrow> sid \<Rightarrow> io_server" where
  "connection io s = socket_join (io\<lparr>sockets := insert s (sockets io)\<rparr>) s (JStr s)"

definition join_room :: "io_server \<Rightarrow> sid \<Rightarrow> json \<Rightarrow> io_server" where
  "join_room io s roomId = socket_join io s roomId"

definition leave_room :: "io_server \<Rightarrow> sid \<Rightarrow> json \<Rightarrow> io_server" where
  "leave_room io s roomId = socket_leave io s roomId"

definition send_message :: "io_server \<Rightarrow> sid \<Rightarrow> json \<Rightarrow> error + emission" where
  "send_message io s data =
     (if nullish data then Inl TypeError
      else Inr (socket_to_emit io s (get_prop data ''roomId'') ''receive_message'' data))"

definition typing :: "io_server \<Rightarrow> sid \<Rightarrow> json \<Rightarrow> error + emission" where
  "typing io s data =
     (if nullish data then Inl TypeError
      else Inr (socket_to_emit io s (get_prop data ''roomId'') ''user_typing''
             (JObj [(''userId'', get_prop data ''userId''),
                    (''username'', get_prop data ''username''),
                    (''isTyping'', get_prop data ''isTyping'')])))"

definition disconnect :: "io_server \<Rightarrow> sid \<Rightarrow> io_server" where
  "disconnect io s = (socket_leave_all io s)\<lparr>sockets := sockets io - {s}\<rparr>"

section \<open>The collections of the database\<close>

text \<open>
  The documents of the three collections, with the fields of the schemas. A date is a number
  of milliseconds. The schema of users is not among the files of the repository; the record
  has the fields of a user that the routes and the client name.
\<close>

record member =
  member_user :: string
  joinedAt :: int
  role :: string

record room_doc =
  room_id :: string
  room_name :: string
  description :: "string option"
  room_type :: string
  createdBy :: string
  members :: "member list"
  isActive :: bool
  lastMessage :: "string option"
  room_createdAt :: int
  room_updatedAt :: int

record user_doc =
  user_id :: string
  username :: string
  avatar :: "string option"
  isOnline :: bool

record attachment =
  filename :: string
  originalName :: string
  url :: string
  fileType :: string
  fileSize :: int
  uploadedAt :: "int option"

record reaction =
  reaction_user :: string
  emoji :: string
  addedAt :: int

record message =
  msg_id :: string
  content :: "string option"
  sender :: string
  room :: string
  messageType :: string
  attachments :: "attachment list"
  replyTo :: "string option"
  editedAt :: "int option"
  isEdited :: bool
  isDeleted :: bool
  deletedAt :: "int option"
  reactions :: "reaction list"
  createdAt :: int
  updatedAt :: int

record database =
  message_docs :: "message list"
  room_docs :: "room_doc list"
  user_docs :: "user_doc list"

text \<open>
  \<^verbatim>\<open>Room.findOne({ _id: roomId, 'members.user': req.userId, isActive: true })\<close>, the
  membership query of the routes.
\<close>

definition find_member_room :: "room_doc list \<Rightarrow> string \<Rightarrow> string \<Rightarrow> room_doc option" where
  "find_member_room rs roomId userId =
     find (\<lambda>r. room_id r = roomId \<and> userId \<in> set (map member_user (members r)) \<and> isActive r) rs"

section \<open>The routes of messages\<close>

text \<open>
  Each route is a function of the database and of the request as the handler sees it:
  \<open>userId\<close> is \<^verbatim>\<open>req.userId\<close>, the user the \<^verbatim>\<open>auth\<close> middleware has attached;
  the other arguments are the parameters of the path and the fields of the body, a field
  that is absent being \<open>None\<close>. A route that writes returns the database too.

  Every handler is one \<^verbatim>\<open>try\<close> block whose \<^verbatim>\<open>catch\<close> answers 500. What is thrown
  there is a rejected database call: a lost connection, an id that cannot be cast. The
  parameter \<open>fault\<close> is the position, counted from 0 among the awaited database calls of
  the handler, of the call that rejects, \<open>None\<close> when none does. The clock
  (\<^verbatim>\<open>new Date()\<close>, the timestamps) is the parameter \<open>now\<close>, and the id of a new
  document is the parameter \<open>new_id\<close>.
\<close>

text \<open>A value that may be absent, with the default taken in its place.\<close>

definition or_default :: "'a option \<Rightarrow> 'a \<Rightarrow> 'a" where
  "or_default x d = (case x of None \<Rightarrow> d | Some v \<Rightarrow> v)"

text \<open>
  \<^verbatim>\<open>populate\<close>. A message refers to its sender, to the message it replies to and
  to the users of its reactions by their ids. In an answer, a path that was populated
  carries the document of that id in place of the id, whatever that document holds, and
  nothing when there is no such document; a user is populated with the fields selected
  (\<^verbatim>\<open>username avatar\<close>, or \<^verbatim>\<open>username\<close>) and a message with all its fields, its own
  references being left as ids. A message of an answer is the stored document with what
  the answer carries at these three paths.
\<close>

datatype 'd populated = Id string | Doc 'd | NoDoc

record user_view =
  view_id :: string
  view_username :: string
  view_avatar :: "string option"

record message_view =
  v_doc :: message
  v_sender :: "user_view populated"
  v_replyTo :: "message populated"
  v_reaction_users :: "user_view populated list"

definition populate_user :: "user_doc list \<Rightarrow> bool \<Rightarrow> string \<Rightarrow> user_view populated" where
  "populate_user us with_avatar i =
     (case find (\<lambda>u. user_id u = i) us of
        None \<Rightarrow> NoDoc
      | Some u \<Rightarrow> Doc \<lparr>view_id = user_id u, view_username = username u,
                       view_avatar = (if with_avatar then avatar u else None)\<rparr>)"

definition populate_message :: "message list \<Rightarrow> string option \<Rightarrow> message populated" where
  "populate_message ms r =
     (case r of
        None \<Rightarrow> NoDoc
      | Some i \<Rightarrow> (case find (\<lambda>m. msg_id m = i) ms of None \<Rightarrow> NoDoc | Some m \<Rightarrow> Doc m))"

definition unpopulated :: "string option \<Rightarrow> 'd populated" where
  "unpopulated r = (case r of None \<Rightarrow> NoDoc | Some i \<Rightarrow> Id i)"

text \<open>
  The message \<open>m\<close> as an answer carries it, the three flags saying which of
  \<^verbatim>\<open>sender\<close>, \<^verbatim>\<open>replyTo\<close> and \<^verbatim>\<open>reactions.user\<close> the route populates.
\<close>

definition populate ::
  "database \<Rightarrow> bool \<Rightarrow> bool \<Rightarrow> bool \<Rightarrow> message \<Rightarrow> message_view" where
  "populate db with_sender with_replyTo with_reactions m =
     \<lparr>v_doc = m,
      v_sender = (if with_sender then populate_user (user_docs db) True (sender m)
                  else Id (sender m)),
      v_replyTo = (if with_replyTo then populate_message (message_docs db) (replyTo m)
                   else unpopulated (replyTo m)),
      v_reaction_users =
        map (\<lambda>r. if with_reactions then populate_user (user_docs db) False (reaction_user r)
                 else Id (reaction_user r)) (reactions m)\<rparr>"

datatype body =
    MessageOnly string
  | ValidationErrors "string list"
  | MessageData string message_view
  | MessagesPage "message_view list" "int option" int int

record response =
  status :: nat
  body :: body

definition server_error :: response where
  "server_error = \<lparr>status = 500, body = MessageOnly ''Server error''\<rparr>"

definition reply :: "nat \<Rightarrow> string \<Rightarrow> response" where
  "reply code msg = \<lparr>status = code, body = MessageOnly msg\<rparr>"

text \<open>
  The messages an answer lists, and every message document an answer carries: those it
  lists and those populated inside them.
\<close>

definition returned_messages :: "response \<Rightarrow> message_view list" where
  "returned_messages r =
     (case body r of MessagesPage ms _ _ _ \<Rightarrow> ms | MessageData _ m \<Rightarrow> [m] | _ \<Rightarrow> [])"

definition carried_docs :: "message_view \<Rightarrow> message list" where
  "carried_docs v = v_doc v # (case v_replyTo v of Doc d \<Rightarrow> [d] | _ \<Rightarrow> [])"

definition answer_docs :: "response \<Rightarrow> message list" where
  "answer_docs r = concat (map carried_docs (returned_messages r))"

text \<open>
  \<^verbatim>\<open>trim\<close> removes the white space at both ends of a string; the white space of the
  model is the ASCII one (tab, line feed, vertical tab, form feed, carriage return, space).
\<close>

definition is_space :: "char \<Rightarrow> bool" where
  "is_space c = (c \<in> set [CHR 0x09, CHR 0x0A, CHR 0x0B, CHR 0x0C, CHR 0x0D, CHR '' ''])"

definition trim :: "string \<Rightarrow> string" where
  "trim s = rev (dropWhile is_space (rev (dropWhile is_space s)))"

text \<open>
  \<^verbatim>\<open>document.save()\<close>. A new document is inserted, and the insertion is rejected when
  its id is taken. A document that was read from the collection replaces the stored
  document of its id. Both set \<^verbatim>\<open>updatedAt\<close>. The schema is validated first:
  \<^verbatim>\<open>content\<close> is required unless there are attachments, and has at most 2000
  characters.
\<close>

definition schema_valid :: "message \<Rightarrow> bool" where
  "schema_valid m =
     (case content m of
        None \<Rightarrow> attachments m \<noteq> []
      | Some c \<Rightarrow> (if c = [] then attachments m \<noteq> [] else length c \<le> 2000))"

fun replace_doc :: "message \<Rightarrow> message list \<Rightarrow> message list" where
  "replace_doc m [] = []"
| "replace_doc m (d # ds) = (if msg_id d = msg_id m then m # ds else d # replace_doc m ds)"

definition save_existing :: "database \<Rightarrow> int \<Rightarrow> message \<Rightarrow> database option" where
  "save_existing db now m =
     (if schema_valid m
      then Some (db\<lparr>message_docs := replace_doc (m\<lparr>updatedAt := now\<rparr>) (message_docs db)\<rparr>)
      else None)"

definition save_new :: "database \<Rightarrow> int \<Rightarrow> message \<Rightarrow> database option" where
  "save_new db now m =
     (if schema_valid m \<and> msg_id m \<notin> set (map msg_id (message_docs db))
      then Some (db\<lparr>message_docs := message_docs db @ [m\<lparr>createdAt := now, updatedAt := now\<rparr>]\<rparr>)
      else None)"

subsection \<open>GET /api/messages/:roomId\<close>

text \<open>
  \<open>page\<close> and \<open>limit\<close> are the numbers the query strings stand for, \<open>None\<close> when the
  query has none. The database skips first and limits second, whatever the order of the
  calls; a limit of 0 is no limit, a negative limit is its absolute value, and a negative
  skip is rejected. \<^verbatim>\<open>Math.ceil(totalMessages / limit)\<close> is not a number when
  \<open>limit\<close> is 0, and is then \<^verbatim>\<open>null\<close> in the JSON of the answer.
\<close>

definition query_room_messages :: "message list \<Rightarrow> string \<Rightarrow> message list" where
  "query_room_messages ms roomId = filter (\<lambda>m. room m = roomId \<and> \<not> isDeleted m) ms"

definition newest_first :: "message list \<Rightarrow> message list" where
  "newest_first ms = sort_key (\<lambda>m. - createdAt m) ms"

definition apply_limit :: "int \<Rightarrow> message list \<Rightarrow> message list" where
  "apply_limit n ms = (if n = 0 then ms else take (nat \<bar>n\<bar>) ms)"

definition total_pages :: "int \<Rightarrow> int \<Rightarrow> int option" where
  "total_pages n lim = (if lim = 0 then None else Some (- ((- n) div lim)))"

definition get_messages ::
  "database \<Rightarrow> nat option \<Rightarrow> string \<Rightarrow> string \<Rightarrow> int option \<Rightarrow> int option \<Rightarrow> response" where
  "get_messages db fault userId roomId page_q limit_q =
     (let page = or_default page_q 1;
          limit = or_default limit_q 50;
          skip = (page - 1) * limit
      in if fault = Some 0 then server_error
         else case find_member_room (room_docs db) roomId userId of
           None \<Rightarrow> reply 404 ''Room not found or access denied''
         | Some member_room \<Rightarrow>
             if fault = Some 1 \<or> skip < 0 then server_error
             else let found = query_room_messages (message_docs db) roomId;
                      messages = apply_limit limit (drop (nat skip) (newest_first found));
                      totalMessages = int (length found)
                  in if fault = Some 2 then server_error
                     else \<lparr>status = 200,
                           body = MessagesPage (rev (map (populate db True True True) messages))
                                    (total_pages totalMessages limit) page totalMessages\<rparr>)"

subsection \<open>POST /api/messages\<close>

record post_body =
  b_content :: "string option"
  b_roomId :: "string option"
  b_messageType :: "string option"
  b_attachments :: "attachment list option"
  b_replyTo :: "string option"

definition message_types :: "string list" where
  "message_types = [''text'', ''image'', ''file'', ''system'']"

definition post_validation :: "post_body \<Rightarrow> string list" where
  "post_validation b =
     (case b_content b of
        None \<Rightarrow> []
      | Some c \<Rightarrow> if length (trim c) \<le> 2000 then []
                  else [''Message content must be less than 2000 characters''])
     @ (if b_roomId b = None \<or> b_roomId b = Some [] then [''Room ID is required''] else [])
     @ (case b_messageType b of
          None \<Rightarrow> []
        | Some t \<Rightarrow> if t \<in> set message_types then [] else [''Invalid message type''])"

definition falsy_string :: "string option \<Rightarrow> bool" where
  "falsy_string c = (c = None \<or> c = Some [])"

definition set_lastMessage :: "room_doc list \<Rightarrow> string \<Rightarrow> string \<Rightarrow> int \<Rightarrow> room_doc list" where
  "set_lastMessage rs roomId mid now =
     (case find (\<lambda>r. room_id r = roomId) rs of
        None \<Rightarrow> rs
      | Some r \<Rightarrow>
          takeWhile (\<lambda>r. room_id r \<noteq> roomId) rs
          @ r\<lparr>lastMessage := Some mid, room_updatedAt := now\<rparr>
          # tl (dropWhile (\<lambda>r. room_id r \<noteq> roomId) rs))"

text \<open>
  \<^verbatim>\<open>new Message({ content, sender, room, messageType, attachments, replyTo })\<close>: the
  document with the defaults of the schema.
\<close>

definition new_Message ::
  "string \<Rightarrow> string option \<Rightarrow> string \<Rightarrow> string \<Rightarrow> string \<Rightarrow> attachment list \<Rightarrow> string option
     \<Rightarrow> int \<Rightarrow> message" where
  "new_Message new_id c userId roomId t as reply_to now =
     \<lparr>msg_id = new_id, content = map_option trim c, sender = userId, room = roomId,
      messageType = t,
      attachments = map (\<lambda>a. a\<lparr>uploadedAt :=
                      Some (or_default (uploadedAt a) now)\<rparr>) as,
      replyTo = reply_to, editedAt = None, isEdited = False, isDeleted = False,
      deletedAt = None, reactions = [], createdAt = now, updatedAt = now\<rparr>"

definition post_message ::
  "database \<Rightarrow> nat option \<Rightarrow> string \<Rightarrow> post_body \<Rightarrow> string \<Rightarrow> int \<Rightarrow> response \<times> database" where
  "post_message db fault userId b new_id now =
     (if post_validation b \<noteq> [] then
        (\<lparr>status = 400, body = ValidationErrors (post_validation b)\<rparr>, db)
      else
        let content = map_option trim (b_content b);
            roomId = or_default (b_roomId b) [];
            messageType = or_default (b_messageType b) ''text'';
            attachments = or_default (b_attachments b) []
        in if fault = Some 0 then (server_error, db)
           else case find_member_room (room_docs db) roomId userId of
             None \<Rightarrow> (reply 404 ''Room not found or access denied'', db)
           | Some member_room \<Rightarrow>
               if falsy_string content \<and> attachments = [] then
                 (reply 400 ''Message content or attachments required'', db)
               else
                 let message = new_Message new_id content userId roomId messageType
                                 attachments (b_replyTo b) now
                 in if fault = Some 1 then (server_error, db)
                    else case save_new db now message of
                      None \<Rightarrow> (server_error, db)
                    | Some db1 \<Rightarrow>
                        if fault = Some 2 \<or> fault = Some 3 \<or> fault = Some 4 then
                          (server_error, db1)
                        else
                          (\<lparr>status = 201,
                            body = MessageData ''Message sent successfully''
                                     (populate db1 True True False message)\<rparr>,
                           db1\<lparr>room_docs :=
                                 set_lastMessage (room_docs db1) roomId new_id now\<rparr>))"

subsection \<open>PUT /api/messages/:id\<close>

definition find_own_message :: "message list \<Rightarrow> string \<Rightarrow> string \<Rightarrow> message option" where
  "find_own_message ms mid userId =
     find (\<lambda>m. msg_id m = mid \<and> sender m = userId \<and> \<not> isDeleted m) ms"

definition find_live_message :: "message list \<Rightarrow> string \<Rightarrow> message option" where
  "find_live_message ms mid = find (\<lambda>m. msg_id m = mid \<and> \<not> isDeleted m) ms"

definition put_validation :: "string option \<Rightarrow> string list" where
  "put_validation c =
     (case c of
        None \<Rightarrow> [''Invalid value'']
      | Some v \<Rightarrow>
          (if v = [] then [''Invalid value''] else [])
          @ (if length (trim v) \<le> 2000 then []
             else [''Message content must be between 1 and 2000 characters'']))"

definition put_message ::
  "database \<Rightarrow> nat option \<Rightarrow> string \<Rightarrow> string \<Rightarrow> string option \<Rightarrow> int \<Rightarrow> response \<times> database" where
  "put_message db fault userId mid content_q now =
     (if put_validation content_q \<noteq> [] then
        (\<lparr>status = 400, body = ValidationErrors (put_validation content_q)\<rparr>, db)
      else if fault = Some 0 then (server_error, db)
      else case find_own_message (message_docs db) mid userId of
        None \<Rightarrow> (reply 404 ''Message not found or access denied'', db)
      | Some message \<Rightarrow>
          if now - createdAt message > 24 * (1000 * 60 * 60) then
            (reply 400 ''Message is too old to edit'', db)
          else
            let edited = message\<lparr>content := map_option trim content_q, isEdited := True,
                                  editedAt := Some now\<rparr>
            in if fault = Some 1 then (server_error, db)
               else case save_existing db now edited of
                 None \<Rightarrow> (server_error, db)
               | Some db1 \<Rightarrow>
                   if fault = Some 2 then (server_error, db1)
                   else (\<lparr>status = 200,
                          body = MessageData ''Message updated successfully''
                                   (populate db1 True False False
                                      (edited\<lparr>updatedAt := now\<rparr>))\<rparr>, db1))"

subsection \<open>DELETE /api/messages/:id\<close>

definition delete_message ::
  "database \<Rightarrow> nat option \<Rightarrow> string \<Rightarrow> string \<Rightarrow> int \<Rightarrow> response \<times> database" where
  "delete_message db fault userId mid now =
     (if fault = Some 0 then (server_error, db)
      else case find_own_message (message_docs db) mid userId of
        None \<Rightarrow> (reply 404 ''Message not found or access denied'', db)
      | Some message \<Rightarrow>
          let deleted = message\<lparr>isDeleted := True, deletedAt := Some now,
                                 content := Some ''This message was deleted''\<rparr>
          in if fault = Some 1 then (server_error, db)
             else case save_existing db now deleted of
               None \<Rightarrow> (server_error, db)
             | Some db1 \<Rightarrow> (reply 200 ''Message deleted successfully'', db1))"

subsection \<open>The reactions\<close>

definition add_reaction ::
  "database \<Rightarrow> nat option \<Rightarrow> string \<Rightarrow> string \<Rightarrow> string option \<Rightarrow> int \<Rightarrow> response \<times> database" where
  "add_reaction db fault userId mid emoji_q now =
     (if emoji_q = None \<or> emoji_q = Some [] then
        (\<lparr>status = 400, body = ValidationErrors [''Emoji is required'']\<rparr>, db)
      else if fault = Some 0 then (server_error, db)
      else case find_live_message (message_docs db) mid of
        None \<Rightarrow> (reply 404 ''Message not found'', db)
      | Some message \<Rightarrow>
          let e = or_default emoji_q [] in
          if find (\<lambda>r. reaction_user r = userId \<and> emoji r = e) (reactions message) \<noteq> None then
            (reply 400 ''Already reacted with this emoji'', db)
          else
            let reacted = message\<lparr>reactions := reactions message
                              @ [\<lparr>reaction_user = userId, emoji = e, addedAt = now\<rparr>]\<rparr>
            in if fault = Some 1 then (server_error, db)
               else case save_existing db now reacted of
                 None \<Rightarrow> (server_error, db)
               | Some db1 \<Rightarrow>
                   if fault = Some 2 then (server_error, db1)
                   else (\<lparr>status = 200,
                          body = MessageData ''Reaction added successfully''
                                   (populate db1 False False True
                                      (reacted\<lparr>updatedAt := now\<rparr>))\<rparr>, db1))"

definition remove_reaction ::
  "database \<Rightarrow> nat option \<Rightarrow> string \<Rightarrow> string \<Rightarrow> string \<Rightarrow> int \<Rightarrow> response \<times> database" where
  "remove_reaction db fault userId mid e now =
     (if fault = Some 0 then (server_error, db)
      else case find_live_message (message_docs db) mid of
        None \<Rightarrow> (reply 404 ''Message not found'', db)
      | Some message \<Rightarrow>
          let cleared = message\<lparr>reactions :=
                filter (\<lambda>r. \<not> (reaction_user r = userId \<and> emoji r = e)) (reactions message)\<rparr>
          in if fault = Some 1 then (server_error, db)
             else case save_existing db now cleared of
               None \<Rightarrow> (server_error, db)
             | Some db1 \<Rightarrow>
                 if fault = Some 2 then (server_error, db1)
                 else (\<lparr>status = 200,
                        body = MessageData ''Reaction removed successfully''
                                 (populate db1 False False True
                                    (cleared\<lparr>updatedAt := now\<rparr>))\<rparr>, db1))"

subsection \<open>A request to a route that writes\<close>

datatype request =
    Post string post_body string
  | Put string string "string option"
  | Delete string string
  | React string string "string option"
  | Unreact string string string

fun route :: "database \<Rightarrow> nat option \<Rightarrow> int \<Rightarrow> request \<Rightarrow> response \<times> database" where
  "route db fault now (Post userId b new_id) = post_message db fault userId b new_id now"
| "route db fault now (Put userId mid c) = put_message db fault userId mid c now"
| "route db fault now (Delete userId mid) = delete_message db fault userId mid now"
| "route db fault now (React userId mid e) = add_reaction db fault userId mid e now"
| "route db fault now (Unreact userId mid e) = remove_reaction db fault userId mid e now"

fun serve :: "database \<Rightarrow> (nat option \<times> int \<times> request) list \<Rightarrow> database" where
  "serve db [] = db"
| "serve db ((fault, now, rq) # rqs) = serve (snd (route db fault now rq)) rqs"

text \<open>
  The document a soft delete at time \<open>t\<close> leaves. A message is gone from a collection
  when a document has its id and every document of that id is such a document.
\<close>

definition tombstone :: "int \<Rightarrow> message \<Rightarrow> bool" where
  "tombstone t m =
     (isDeleted m \<and> deletedAt m = Some t \<and> content m = Some ''This message was deleted'')"

definition gone :: "message list \<Rightarrow> string \<Rightarrow> int \<Rightarrow> bool" where
  "gone ms mid t = (mid \<in> set (map msg_id ms)
                    \<and> filter (\<lambda>m. msg_id m = mid \<and> \<not> tombstone t m) ms = [])"

section \<open>The server as a whole\<close>

text \<open>
  The process holds the socket.io server and the connection to the database. The socket
  listeners are closures over the socket only: none of them reads or writes a collection.
\<close>

record server =
  srv_io :: io_server
  srv_db :: database

definition on_join_room :: "server \<Rightarrow> sid \<Rightarrow> json \<Rightarrow> server" where
  "on_join_room srv s roomId = srv\<lparr>srv_io := join_room (srv_io srv) s roomId\<rparr>"

definition on_disconnect :: "server \<Rightarrow> sid \<Rightarrow> server" where
  "on_disconnect srv s = srv\<lparr>srv_io := disconnect (srv_io srv) s\<rparr>"

definition users_online :: "server \<Rightarrow> string list" where
  "users_online srv = map user_id (filter isOnline (user_docs (srv_db srv)))"

section \<open>The chat room of the client\<close>

text \<open>
  \<^verbatim>\<open>handleSendMessage\<close> of the chat room, with what it calls: \<^verbatim>\<open>axios.post\<close> to
  \<^verbatim>\<open>/api/messages\<close>, and \<^verbatim>\<open>sendMessage\<close> and \<^verbatim>\<open>sendTyping\<close> of the socket
  context, whose events the listeners of the server handle. The state of the component
  that the function reads or sets is the record \<open>client\<close>: the text typed, the typing
  flag, the id of the room, the user object, the socket (\<open>None\<close> while the provider
  has none) and the time at which the pending typing timeout is due (\<open>None\<close> when
  none is pending).

  What the function does not decide is the record \<open>env\<close>: whether the request reaches
  the server; the user the \<^verbatim>\<open>auth\<close> middleware attaches to it, \<open>None\<close> when the
  middleware refuses the request (the middleware is not among the files of the repository;
  a refusal is taken to be answered 401); the database call of the route that rejects,
  if any; the id of the new document; the clocks of the server and of the client.
  \<^verbatim>\<open>axios.post\<close> throws unless the answer has a status from 200 to 299. The server
  handles one request or event at a time, and nothing else happens between the request
  and the events of one call.
\<close>

text \<open>\<^verbatim>\<open>a || b\<close> is \<open>a\<close> when \<open>a\<close> is truthy and \<open>b\<close> otherwise.\<close>

fun truthy :: "json \<Rightarrow> bool" where
  "truthy JUndefined = False"
| "truthy JNull = False"
| "truthy (JBool b) = b"
| "truthy (JNum n) = (n \<noteq> 0)"
| "truthy (JStr s) = (s \<noteq> [])"
| "truthy (JArr xs) = True"
| "truthy (JObj kvs) = True"

definition js_or :: "json \<Rightarrow> json \<Rightarrow> json" where
  "js_or a b = (if truthy a then a else b)"

record client =
  c_newMessage :: string
  c_isTyping :: bool
  c_room :: string
  c_user :: json
  c_socket :: "sid option"
  c_typingTimeout :: "int option"

record env =
  e_network :: bool
  e_auth :: "string option"
  e_fault :: "nat option"
  e_new_id :: string
  e_now :: int
  e_client_now :: int

datatype http_failure = NetworkError | BadStatus nat

definition axios_post_messages ::
  "server \<Rightarrow> env \<Rightarrow> post_body \<Rightarrow> (http_failure + response) \<times> server" where
  "axios_post_messages srv e b =
     (if \<not> e_network e then (Inl NetworkError, srv)
      else case e_auth e of
        None \<Rightarrow> (Inl (BadStatus 401), srv)
      | Some userId \<Rightarrow>
          let answered = post_message (srv_db srv) (e_fault e) userId b (e_new_id e) (e_now e);
              resp = fst answered
          in (if 200 \<le> status resp \<and> status resp < 300 then Inr resp
              else Inl (BadStatus (status resp)),
              srv\<lparr>srv_db := snd answered\<rparr>))"

definition sendMessage :: "server \<Rightarrow> sid option \<Rightarrow> json \<Rightarrow> emission list" where
  "sendMessage srv sock messageData =
     (case sock of
        None \<Rightarrow> []
      | Some s \<Rightarrow> (case send_message (srv_io srv) s messageData of
                     Inl err \<Rightarrow> [] | Inr em \<Rightarrow> [em]))"

definition sendTyping :: "server \<Rightarrow> sid option \<Rightarrow> json \<Rightarrow> emission list" where
  "sendTyping srv sock data =
     (case sock of
        None \<Rightarrow> []
      | Some s \<Rightarrow> (case typing (srv_io srv) s data of
                     Inl err \<Rightarrow> [] | Inr em \<Rightarrow> [em]))"

text \<open>
  What a call leaves behind: the state of the component and of the server, the events the
  server has emitted, the lines of \<^verbatim>\<open>console.error\<close>, and the error the call has
  thrown to its caller, if any.
\<close>

record outcome =
  o_client :: client
  o_server :: server
  o_emitted :: "emission list"
  o_console :: "string list"
  o_thrown :: "error option"

definition messageData :: "client \<Rightarrow> env \<Rightarrow> json" where
  "messageData c e =
     JObj [(''content'', JStr (c_newMessage c)), (''roomId'', JStr (c_room c)),
           (''sender'', c_user c), (''timestamp'', JNum (e_client_now e))]"

definition posted_body :: "client \<Rightarrow> post_body" where
  "posted_body c =
     \<lparr>b_content = Some (c_newMessage c), b_roomId = Some (c_room c),
      b_messageType = Some ''text'', b_attachments = None, b_replyTo = None\<rparr>"

definition typing_data :: "client \<Rightarrow> bool \<Rightarrow> json" where
  "typing_data c t =
     JObj [(''roomId'', JStr (c_room c)),
           (''userId'', js_or (get_prop (c_user c) ''_id'') (get_prop (c_user c) ''id'')),
           (''username'', get_prop (c_user c) ''username''),
           (''isTyping'', JBool t)]"

definition handleSendMessage :: "server \<Rightarrow> client \<Rightarrow> env \<Rightarrow> outcome" where
  "handleSendMessage srv c e =
     (if trim (c_newMessage c) = [] then
        \<lparr>o_client = c, o_server = srv, o_emitted = [], o_console = [], o_thrown = None\<rparr>
      else
        let posted = axios_post_messages srv e (posted_body c);
            srv1 = snd posted
        in case fst posted of
             Inl err \<Rightarrow>
               \<lparr>o_client = c, o_server = srv1, o_emitted = [],
                o_console = [''Error sending message:''], o_thrown = None\<rparr>
           | Inr resp \<Rightarrow>
               let sent = sendMessage srv1 (c_socket c) (messageData c e);
                   c1 = c\<lparr>c_newMessage := [], c_isTyping := False\<rparr>
               in if nullish (c_user c) then
                    \<lparr>o_client = c1, o_server = srv1, o_emitted = sent,
                     o_console = [''Error sending message:''], o_thrown = None\<rparr>
                  else
                    \<lparr>o_client = c1, o_server = srv1,
                     o_emitted = sent @ sendTyping srv1 (c_socket c) (typing_data c False),
                     o_console = [], o_thrown = None\<rparr>)"



text \<open>
  The \<^verbatim>\<open>user_typing\<close> listener of the chat room of room \<open>roomId\<close>, on the list
  \<^verbatim>\<open>typingUsers\<close>. \<^verbatim>\<open>===\<close> holds between equal strings, numbers and booleans,
  and between no two objects that arrived in different events.
\<close>

fun primitive :: "json \<Rightarrow> bool" where
  "primitive (JArr xs) = False"
| "primitive (JObj kvs) = False"
| "primitive _ = True"

definition strict_eq :: "json \<Rightarrow> json \<Rightarrow> bool" where
  "strict_eq a b = (primitive a \<and> a = b)"

definition on_user_typing :: "string \<Rightarrow> json list \<Rightarrow> json \<Rightarrow> error + json list" where
  "on_user_typing roomId typingUsers data =
     (if nullish data then Inl TypeError
      else if strict_eq (get_prop data ''roomId'') (JStr roomId) then
        (if truthy (get_prop data ''isTyping'') then
           Inr (filter (\<lambda>u. \<not> strict_eq (get_prop u ''userId'') (get_prop data ''userId''))
                  typingUsers @ [data])
         else
           Inr (filter (\<lambda>u. \<not> strict_eq (get_prop u ''userId'') (get_prop data ''userId''))
                  typingUsers))
      else Inr typingUsers)"

section \<open>Example states and payloads\<close>

definition io_empty :: io_server where
  "io_empty = \<lparr>sockets = {}, rooms = (\<lambda>r. {})\<rparr>"

definition io_abc :: io_server where
  "io_abc = join_room (join_room (join_room
     (connection (connection (connection io_empty ''A'') ''B'') ''C'')
     ''A'' (JStr ''general'')) ''B'' (JStr ''general'')) ''C'' (JStr ''general'')"

definition msg_hi :: json where
  "msg_hi = JObj [(''content'', JStr ''hi''), (''roomId'', JStr ''general''),
                  (''sender'', JObj [(''username'', JStr ''A'')]), (''timestamp'', JNum 0)]"

definition io_outsider :: io_server where
  "io_outsider = join_room (connection (connection io_empty ''A'') ''B'') ''B'' (JStr ''general'')"

definition typing_alice :: json where
  "typing_alice = JObj [(''roomId'', JStr ''general''), (''userId'', JStr ''u-alice''),
                        (''username'', JStr ''alice''), (''isTyping'', JBool True)]"

definition typing_bob :: json where
  "typing_bob = JObj [(''roomId'', JStr ''general''), (''userId'', JStr ''u-bob''),
                      (''username'', JStr ''bob''), (''isTyping'', JBool True)]"

definition room_r1 :: room_doc where
  "room_r1 = \<lparr>room_id = ''r1'', room_name = ''staff'', description = None,
     room_type = ''private'', createdBy = ''u-bob'',
     members = [\<lparr>member_user = ''u-bob'', joinedAt = 0, role = ''admin''\<rparr>],
     isActive = True, lastMessage = None, room_createdAt = 0, room_updatedAt = 0\<rparr>"

definition srv_private :: server where
  "srv_private = \<lparr>srv_io = connection io_empty ''s1'',
     srv_db = \<lparr>message_docs = [], room_docs = [room_r1],
       user_docs = [\<lparr>user_id = ''u-bob'', username = ''bob'', avatar = None, isOnline = False\<rparr>,
                    \<lparr>user_id = ''u-mallory'', username = ''mallory'', avatar = None, isOnline = True\<rparr>]\<rparr>\<rparr>"

definition srv_alice :: server where
  "srv_alice = \<lparr>srv_io = join_room (connection io_empty ''s1'') ''s1'' (JStr ''general''),
     srv_db = \<lparr>message_docs = [], room_docs = [],
       user_docs = [\<lparr>user_id = ''u-alice'', username = ''alice'', avatar = None, isOnline = True\<rparr>]\<rparr>\<rparr>"

definition msg_m1 :: message where
  "msg_m1 = \<lparr>msg_id = ''m1'', content = Some ''hello'', sender = ''u-alice'', room = ''r1'',
     messageType = ''text'', attachments = [], replyTo = None, editedAt = None,
     isEdited = False, isDeleted = False, deletedAt = None, reactions = [],
     createdAt = 10, updatedAt = 10\<rparr>"

definition msg_m2 :: message where
  "msg_m2 = \<lparr>msg_id = ''m2'', content = Some ''hi alice'', sender = ''u-bob'', room = ''r1'',
     messageType = ''text'', attachments = [], replyTo = None, editedAt = None,
     isEdited = False, isDeleted = False, deletedAt = None, reactions = [],
     createdAt = 20, updatedAt = 20\<rparr>"

definition room_chat :: room_doc where
  "room_chat = \<lparr>room_id = ''r1'', room_name = ''chat'', description = None,
     room_type = ''public'', createdBy = ''u-alice'',
     members = [\<lparr>member_user = ''u-alice'', joinedAt = 0, role = ''admin''\<rparr>,
                \<lparr>member_user = ''u-bob'', joinedAt = 1, role = ''member''\<rparr>],
     isActive = True, lastMessage = Some ''m2'', room_createdAt = 0, room_updatedAt = 20\<rparr>"

definition db_chat :: database where
  "db_chat = \<lparr>message_docs = [msg_m1, msg_m2], room_docs = [room_chat],
     user_docs = [\<lparr>user_id = ''u-alice'', username = ''alice'', avatar = None, isOnline = True\<rparr>,
                  \<lparr>user_id = ''u-bob'', username = ''bob'', avatar = None, isOnline = True\<rparr>]\<rparr>"

definition reply_body :: post_body where
  "reply_body = \<lparr>b_content = Some ''which one?'', b_roomId = Some ''r1'',
     b_messageType = None, b_attachments = None, b_replyTo = Some ''m1''\<rparr>"

definition msg_m3 :: message where
  "msg_m3 = \<lparr>msg_id = ''m3'', content = Some ''which one?'', sender = ''u-bob'', room = ''r1'',
     messageType = ''text'', attachments = [], replyTo = Some ''m1'', editedAt = None,
     isEdited = False, isDeleted = False, deletedAt = None, reactions = [],
     createdAt = 30, updatedAt = 30\<rparr>"

definition db_replied :: database where
  "db_replied = serve db_chat [(None, 30, Post ''u-bob'' reply_body ''m3'')]"

definition msg_m1_deleted :: message where
  "msg_m1_deleted = msg_m1\<lparr>isDeleted := True, deletedAt := Some 1000,
     content := Some ''This message was deleted'', updatedAt := 1000\<rparr>"

definition bob_view :: user_view where
  "bob_view = \<lparr>view_id = ''u-bob'', view_username = ''bob'', view_avatar = None\<rparr>"

definition user_alice :: json where
  "user_alice = JObj [(''id'', JStr ''u-alice''), (''username'', JStr ''alice'')]"

definition srv_chat :: server where
  "srv_chat = \<lparr>srv_io = join_room (join_room (connection (connection io_empty ''sA'') ''sB'')
                   ''sA'' (JStr ''r1'')) ''sB'' (JStr ''r1''),
               srv_db = db_chat\<rparr>"

definition client_alice :: client where
  "client_alice = \<lparr>c_newMessage = ''hello'', c_isTyping = True, c_room = ''r1'',
     c_user = user_alice, c_socket = Some ''sA'', c_typingTimeout = None\<rparr>"




definition env_ok :: env where
  "env_ok = \<lparr>e_network = True, e_auth = Some ''u-alice'', e_fault = None,
     e_new_id = ''m3'', e_now = 30, e_client_now = 29\<rparr>"

definition env_db_down :: env where
  "env_db_down = env_ok\<lparr>e_fault := Some 1\<rparr>"

section \<open>Fan-out of a message\<close>

lemma io_abc_general: "subscribers io_abc (JStr ''general'') = {''A'', ''B'', ''C''}"
  by (auto simp: io_abc_def io_empty_def subscribers_def join_room_def connection_def
      socket_join_def)

text \<open>
  C1. A \<^verbatim>\<open>send_message\<close> event for room \<open>r\<close> that arrives on socket \<open>a\<close>, a
  subscriber of \<open>r\<close>, is emitted as \<^verbatim>\<open>receive_message\<close> with the payload unchanged;
  its recipients are the subscribers of \<open>r\<close> without \<open>a\<close>: every other subscriber
  receives it and \<open>a\<close> does not. The recipients are a set, so no delivery order enters.
\<close>

theorem send_message_excludes_sender:
  assumes "\<not> nullish data" and "get_prop data ''roomId'' = r" and "a \<in> subscribers io r"
  shows "\<exists>em. send_message io a data = Inr em
           \<and> ev em = ''receive_message'' \<and> payload em = data
           \<and> recipients em = subscribers io r - {a}
           \<and> a \<notin> recipients em
           \<and> insert a (recipients em) = subscribers io r"
  using assms by (auto simp: send_message_def socket_to_emit_def subscribers_def)

theorem send_message_excludes_sender_witness:
  "\<not> nullish msg_hi \<and> get_prop msg_hi ''roomId'' = JStr ''general''
   \<and> ''A'' \<in> subscribers io_abc (JStr ''general'')
   \<and> (\<exists>em. send_message io_abc ''A'' msg_hi = Inr em
         \<and> ev em = ''receive_message'' \<and> payload em = msg_hi
         \<and> recipients em = {''B'', ''C''})"
proof -
  have h1: "\<not> nullish msg_hi" by (simp add: msg_hi_def)
  have h2: "get_prop msg_hi ''roomId'' = JStr ''general''" by (simp add: msg_hi_def)
  have h3: "''A'' \<in> subscribers io_abc (JStr ''general'')" by (simp add: io_abc_general)
  have "{''A'', ''B'', ''C''} - {''A''} = {''B'', ''C''}" by auto
  with send_message_excludes_sender [OF h1 h2 h3] h1 h2 h3 show ?thesis
    by (auto simp: io_abc_general)
qed

text \<open>
  C2 says that a message whose sender is not a subscriber of the room is rejected and
  delivered to nobody. As the claim states it, this fails. Socket \<open>A\<close> is connected and
  has not joined \<^verbatim>\<open>general\<close>, whose only subscriber is \<open>B\<close>. The listener throws
  nothing and rejects nothing: the message of \<open>A\<close> is emitted to \<open>B\<close>.
\<close>

theorem send_message_outsider_delivered:
  "''A'' \<notin> subscribers io_outsider (JStr ''general'')
   \<and> send_message io_outsider ''A'' msg_hi
       = Inr \<lparr>ev = ''receive_message'', payload = msg_hi, recipients = {''B''}\<rparr>"
  by (auto simp: io_outsider_def io_empty_def subscribers_def join_room_def connection_def
      socket_join_def send_message_def socket_to_emit_def msg_hi_def)

text \<open>
  C2, amended. The \<^verbatim>\<open>send_message\<close> listener does not look at the sender's
  subscriptions. A message for room \<open>r\<close> from a socket that is not a subscriber of \<open>r\<close>
  is emitted, unchanged, to every subscriber of \<open>r\<close>.
\<close>

theorem send_message_not_member_fans_out:
  assumes "\<not> nullish data" and "get_prop data ''roomId'' = r" and "a \<notin> subscribers io r"
  shows "\<exists>em. send_message io a data = Inr em
           \<and> ev em = ''receive_message'' \<and> payload em = data
           \<and> recipients em = subscribers io r"
  using assms by (auto simp: send_message_def socket_to_emit_def subscribers_def)

lemma io_outsider_general: "subscribers io_outsider (JStr ''general'') = {''B''}"
  by (auto simp: io_outsider_def io_empty_def subscribers_def join_room_def connection_def
      socket_join_def)

theorem send_message_not_member_fans_out_witness:
  "\<not> nullish msg_hi \<and> get_prop msg_hi ''roomId'' = JStr ''general''
   \<and> ''A'' \<notin> subscribers io_outsider (JStr ''general'')
   \<and> (\<exists>em. send_message io_outsider ''A'' msg_hi = Inr em
         \<and> ev em = ''receive_message'' \<and> payload em = msg_hi
         \<and> recipients em = {''B''})"
proof -
  have h1: "\<not> nullish msg_hi" by (simp add: msg_hi_def)
  have h2: "get_prop msg_hi ''roomId'' = JStr ''general''" by (simp add: msg_hi_def)
  have h3: "''A'' \<notin> subscribers io_outsider (JStr ''general'')"
    by (simp add: io_outsider_general)
  from send_message_not_member_fans_out [OF h1 h2 h3] h1 h2 h3 show ?thesis
    by (simp add: io_outsider_general)
qed

section \<open>Join, leave and disconnect\<close>

text \<open>
  C8. Joining a room twice is joining it once: the second \<^verbatim>\<open>join_room\<close> leaves the
  state, hence the subscribers of the room and their number, as the first left them.
  Leaving twice is leaving once: the second \<^verbatim>\<open>leave_room\<close> changes nothing.
\<close>

theorem join_leave_idempotent:
  "join_room (join_room io s r) s r = join_room io s r
   \<and> subscribers (join_room (join_room io s r) s r) r = subscribers (join_room io s r) r
   \<and> card (subscribers (join_room (join_room io s r) s r) r)
       = card (subscribers (join_room io s r) r)
   \<and> leave_room (leave_room io s r) s r = leave_room io s r
   \<and> subscribers (leave_room (leave_room io s r) s r) r = subscribers (leave_room io s r) r"
proof -
  have j: "join_room (join_room io s r) s r = join_room io s r"
    by (simp add: join_room_def socket_join_def)
  have l: "leave_room (leave_room io s r) s r = leave_room io s r"
    by (simp add: leave_room_def socket_leave_def)
  show ?thesis by (simp add: j l)
qed

text \<open>
  C4 says that a disconnect removes the connection from every room and from presence,
  the online state of its user. As the claim states it, this fails on presence. The only
  socket of the server is \<open>s1\<close>, on which the user \<^verbatim>\<open>u-alice\<close>, marked online, is
  connected. After the disconnect of \<open>s1\<close> no socket is left, and the user is still
  online.
\<close>

theorem disconnect_keeps_user_online:
  "sockets (srv_io srv_alice) = {''s1''}
   \<and> sockets (srv_io (on_disconnect srv_alice ''s1'')) = {}
   \<and> users_online (on_disconnect srv_alice ''s1'') = [''u-alice'']"
  by (simp add: srv_alice_def on_disconnect_def disconnect_def socket_leave_all_def
      join_room_def connection_def socket_join_def io_empty_def users_online_def)

text \<open>
  C4, amended. When the disconnect of socket \<open>s\<close> completes, \<open>s\<close> is a subscriber of no
  room and is not among the connected sockets; the subscriptions of the other sockets are
  as before. The server keeps no presence per connection: the listener writes nothing to
  the database, and the online state of every user is what it was.
\<close>

theorem disconnect_purges_rooms_only:
  "s \<notin> subscribers (srv_io (on_disconnect srv s)) r
   \<and> s \<notin> sockets (srv_io (on_disconnect srv s))
   \<and> subscribers (srv_io (on_disconnect srv s)) r = subscribers (srv_io srv) r - {s}
   \<and> srv_db (on_disconnect srv s) = srv_db srv
   \<and> users_online (on_disconnect srv s) = users_online srv"
  by (simp add: on_disconnect_def disconnect_def socket_leave_all_def subscribers_def
      users_online_def)

section \<open>Authorization and identity\<close>

text \<open>
  C5 says that a connection is a subscriber of a room only if the membership of its user
  in that room was checked, with success, before the join. As the claim states it, this
  fails. The user \<^verbatim>\<open>u-mallory\<close> is not a member of the
  private room \<open>r1\<close>: the membership query of the routes finds nothing. The socket \<open>s1\<close>
  of that user sends \<^verbatim>\<open>join_room\<close> for \<open>r1\<close> and is a subscriber of it afterwards.
\<close>

theorem join_room_without_membership:
  "find_member_room (room_docs (srv_db srv_private)) ''r1'' ''u-mallory'' = None
   \<and> ''s1'' \<notin> subscribers (srv_io srv_private) (JStr ''r1'')
   \<and> ''s1'' \<in> subscribers (srv_io (on_join_room srv_private ''s1'' (JStr ''r1''))) (JStr ''r1'')
   \<and> srv_db (on_join_room srv_private ''s1'' (JStr ''r1'')) = srv_db srv_private"
  by (simp add: srv_private_def room_r1_def find_member_room_def on_join_room_def
      join_room_def socket_join_def subscribers_def connection_def io_empty_def)

text \<open>
  C5, amended. The \<^verbatim>\<open>join_room\<close> listener makes no authorization check: whatever the
  rooms and members of the database are, the socket is a subscriber of the room it names
  after the event, and the database is not touched. Membership is checked by the HTTP
  routes only.
\<close>

theorem join_room_unconditional:
  "s \<in> subscribers (srv_io (on_join_room srv s r)) r
   \<and> subscribers (srv_io (on_join_room srv s r)) r = insert s (subscribers (srv_io srv) r)
   \<and> srv_db (on_join_room srv s r) = srv_db srv"
  by (simp add: on_join_room_def join_room_def socket_join_def subscribers_def)

text \<open>
  C6 says that the user an event is attributed to is bound to the connection and never
  read from the payload, so that two events of one connection that differ in the identity
  fields of the payload only have the same originator. As the claim states it, this
  fails. Two \<^verbatim>\<open>typing\<close> events arrive on the same socket
  \<open>A\<close>; they differ in the identity fields of the payload only. The events emitted to the
  room name two different users.
\<close>

theorem typing_identity_from_payload:
  "typing io_abc ''A'' typing_alice
     = Inr \<lparr>ev = ''user_typing'',
            payload = JObj [(''userId'', JStr ''u-alice''), (''username'', JStr ''alice''),
                            (''isTyping'', JBool True)],
            recipients = {''B'', ''C''}\<rparr>
   \<and> typing io_abc ''A'' typing_bob
     = Inr \<lparr>ev = ''user_typing'',
            payload = JObj [(''userId'', JStr ''u-bob''), (''username'', JStr ''bob''),
                            (''isTyping'', JBool True)],
            recipients = {''B'', ''C''}\<rparr>"
proof -
  have "rooms io_abc (JStr ''general'') - {''A''} = {''B'', ''C''}"
    using io_abc_general by (auto simp: subscribers_def)
  then show ?thesis
    by (simp add: typing_def socket_to_emit_def typing_alice_def typing_bob_def)
qed

text \<open>
  C6, amended. The user named by an outbound event is the one the payload names: a
  \<^verbatim>\<open>user_typing\<close> event carries the \<^verbatim>\<open>userId\<close> and \<^verbatim>\<open>username\<close> of the inbound
  payload, and a \<^verbatim>\<open>receive_message\<close> event is the inbound payload itself, its
  \<^verbatim>\<open>sender\<close> field included. The socket the event arrived on decides the recipients
  only: the same payload on another socket gives the same outbound payload.
\<close>

theorem identity_read_from_payload:
  assumes "\<not> nullish data"
  shows "(\<exists>em. typing io s data = Inr em
            \<and> get_prop (payload em) ''userId'' = get_prop data ''userId''
            \<and> get_prop (payload em) ''username'' = get_prop data ''username''
            \<and> recipients em = subscribers io (get_prop data ''roomId'') - {s})
       \<and> (\<exists>em. send_message io s data = Inr em \<and> payload em = data
            \<and> get_prop (payload em) ''sender'' = get_prop data ''sender'')
       \<and> map_sum id payload (typing io s data) = map_sum id payload (typing io s' data)
       \<and> map_sum id payload (send_message io s data)
           = map_sum id payload (send_message io s' data)"
  using assms
  by (simp add: typing_def send_message_def socket_to_emit_def subscribers_def)

theorem identity_read_from_payload_witness:
  "\<not> nullish typing_bob
   \<and> (\<exists>em. typing io_abc ''A'' typing_bob = Inr em
         \<and> get_prop (payload em) ''userId'' = JStr ''u-bob''
         \<and> get_prop (payload em) ''username'' = JStr ''bob'')
   \<and> (\<exists>em. send_message io_abc ''A'' typing_bob = Inr em \<and> payload em = typing_bob)"
proof -
  have h: "\<not> nullish typing_bob" by (simp add: typing_bob_def)
  have u: "get_prop typing_bob ''userId'' = JStr ''u-bob''"
    and n: "get_prop typing_bob ''username'' = JStr ''bob''"
    by (simp_all add: typing_bob_def)
  from identity_read_from_payload [OF h, of io_abc "''A''" "''A''"] h u n
  show ?thesis by auto
qed

section \<open>The typing event\<close>

text \<open>
  C9. A \<^verbatim>\<open>typing\<close> event is emitted as \<^verbatim>\<open>user_typing\<close> to the other subscribers of
  the room it names. The payload emitted is an object of exactly three keys,
  \<^verbatim>\<open>userId\<close>, \<^verbatim>\<open>username\<close> and \<^verbatim>\<open>isTyping\<close>, with the values of these keys in the
  inbound payload; it has no \<^verbatim>\<open>roomId\<close>.
\<close>

theorem typing_payload_fields:
  assumes "\<not> nullish data"
  shows "\<exists>em. typing io s data = Inr em
           \<and> ev em = ''user_typing''
           \<and> recipients em = subscribers io (get_prop data ''roomId'') - {s}
           \<and> keys (payload em) = [''userId'', ''username'', ''isTyping'']
           \<and> get_prop (payload em) ''userId'' = get_prop data ''userId''
           \<and> get_prop (payload em) ''username'' = get_prop data ''username''
           \<and> get_prop (payload em) ''isTyping'' = get_prop data ''isTyping''
           \<and> ''roomId'' \<notin> set (keys (payload em))
           \<and> get_prop (payload em) ''roomId'' = JUndefined"
  using assms by (simp add: typing_def socket_to_emit_def subscribers_def)

theorem typing_payload_fields_witness:
  "\<not> nullish typing_alice
   \<and> get_prop typing_alice ''roomId'' = JStr ''general''
   \<and> (\<exists>em. typing io_abc ''A'' typing_alice = Inr em
         \<and> ev em = ''user_typing''
         \<and> recipients em = {''B'', ''C''}
         \<and> keys (payload em) = [''userId'', ''username'', ''isTyping'']
         \<and> get_prop (payload em) ''userId'' = JStr ''u-alice''
         \<and> get_prop (payload em) ''username'' = JStr ''alice''
         \<and> get_prop (payload em) ''isTyping'' = JBool True
         \<and> get_prop (payload em) ''roomId'' = JUndefined)"
proof -
  have h: "\<not> nullish typing_alice" by (simp add: typing_alice_def)
  have g: "get_prop typing_alice ''roomId'' = JStr ''general''"
    "get_prop typing_alice ''userId'' = JStr ''u-alice''"
    "get_prop typing_alice ''username'' = JStr ''alice''"
    "get_prop typing_alice ''isTyping'' = JBool True"
    by (simp_all add: typing_alice_def)
  have d: "{''A'', ''B'', ''C''} - {''A''} = {''B'', ''C''}" by auto
  from typing_payload_fields [OF h, of io_abc "''A''"] h g d show ?thesis
    by (auto simp: io_abc_general)
qed

section \<open>Soft delete\<close>

text \<open>
  Saving a document keeps the ids of the collection, and touches no document of another
  id. So a message that is gone stays gone under every route that writes: the routes that
  change a message look for one that is not deleted, and a new message has a new id.
\<close>

lemma replace_doc_ids: "map msg_id (replace_doc m ds) = map msg_id ds"
  by (induction ds) auto

lemma replace_doc_other:
  "msg_id m \<noteq> mid \<Longrightarrow>
   filter (\<lambda>d. msg_id d = mid \<and> \<not> tombstone t d) (replace_doc m ds)
     = filter (\<lambda>d. msg_id d = mid \<and> \<not> tombstone t d) ds"
  by (induction ds) auto

lemma gone_replace_doc:
  "gone ds mid t \<Longrightarrow> msg_id m \<noteq> mid \<Longrightarrow> gone (replace_doc m ds) mid t"
  using replace_doc_ids [of m ds] by (simp add: gone_def replace_doc_other)

lemma save_existing_docs:
  "save_existing db now m = Some db1 \<Longrightarrow>
   message_docs db1 = replace_doc (m\<lparr>updatedAt := now\<rparr>) (message_docs db)"
  by (auto simp: save_existing_def split: if_splits)

lemma gone_save_existing:
  assumes "gone (message_docs db) mid t" and "save_existing db now m = Some db1"
    and "msg_id m \<noteq> mid"
  shows "gone (message_docs db1) mid t"
  using assms by (simp add: save_existing_docs gone_replace_doc)

lemma gone_save_new:
  assumes "gone (message_docs db) mid t" and "save_new db now m = Some db1"
  shows "gone (message_docs db1) mid t"
  using assms by (auto simp: save_new_def gone_def split: if_splits)

lemma own_live:
  "find_own_message ms mid u = Some m \<Longrightarrow>
   msg_id m = mid \<and> \<not> isDeleted m \<and> sender m = u \<and> m \<in> set ms"
  by (auto simp: find_own_message_def find_Some_iff)

lemma live_live:
  "find_live_message ms mid = Some m \<Longrightarrow>
   msg_id m = mid \<and> \<not> isDeleted m \<and> m \<in> set ms"
  by (auto simp: find_live_message_def find_Some_iff)

lemma gone_not_own: "gone ms mid t \<Longrightarrow> find_own_message ms mid u = None"
proof (cases "find_own_message ms mid u")
  case None then show "find_own_message ms mid u = None" by simp
next
  case (Some m)
  assume g: "gone ms mid t"
  from own_live [OF Some]
  have "m \<in> set (filter (\<lambda>m. msg_id m = mid \<and> \<not> tombstone t m) ms)"
    by (simp add: tombstone_def)
  with g show "find_own_message ms mid u = None" by (simp add: gone_def)
qed

lemma gone_put:
  assumes "gone (message_docs db) mid t"
  shows "gone (message_docs (snd (put_message db f u x c now))) mid t"
proof (cases "x = mid")
  case True
  with assms show ?thesis
    by (simp add: put_message_def gone_not_own reply_def)
next
  case False
  show ?thesis
  proof (cases "find_own_message (message_docs db) x u")
    case None
    with assms show ?thesis by (simp add: put_message_def)
  next
    case (Some m)
    from own_live [OF Some] False have ne: "msg_id m \<noteq> mid" by simp
    show ?thesis using assms Some ne
      by (auto simp: put_message_def Let_def gone_save_existing split: option.splits)
  qed
qed

lemma gone_delete:
  assumes "gone (message_docs db) mid t"
  shows "gone (message_docs (snd (delete_message db f u x now))) mid t"
proof (cases "find_own_message (message_docs db) x u")
  case None
  with assms show ?thesis by (simp add: delete_message_def)
next
  case (Some m)
  from own_live [OF Some] have "msg_id m = x" "\<not> isDeleted m" "m \<in> set (message_docs db)" by simp_all
  with assms have ne: "msg_id m \<noteq> mid" by (auto simp: gone_def tombstone_def filter_empty_conv)
  show ?thesis using assms Some ne
    by (auto simp: delete_message_def Let_def gone_save_existing split: option.splits)
qed

lemma gone_react:
  assumes "gone (message_docs db) mid t"
  shows "gone (message_docs (snd (add_reaction db f u x e now))) mid t"
proof (cases "find_live_message (message_docs db) x")
  case None
  with assms show ?thesis by (simp add: add_reaction_def)
next
  case (Some m)
  from live_live [OF Some] have "msg_id m = x" "\<not> isDeleted m" "m \<in> set (message_docs db)" by simp_all
  with assms have ne: "msg_id m \<noteq> mid" by (auto simp: gone_def tombstone_def filter_empty_conv)
  show ?thesis using assms Some ne
    by (auto simp: add_reaction_def Let_def gone_save_existing split: option.splits)
qed

lemma gone_unreact:
  assumes "gone (message_docs db) mid t"
  shows "gone (message_docs (snd (remove_reaction db f u x e now))) mid t"
proof (cases "find_live_message (message_docs db) x")
  case None
  with assms show ?thesis by (simp add: remove_reaction_def)
next
  case (Some m)
  from live_live [OF Some] have "msg_id m = x" "\<not> isDeleted m" "m \<in> set (message_docs db)" by simp_all
  with assms have ne: "msg_id m \<noteq> mid" by (auto simp: gone_def tombstone_def filter_empty_conv)
  show ?thesis using assms Some ne
    by (auto simp: remove_reaction_def Let_def gone_save_existing split: option.splits)
qed

lemma gone_post:
  assumes "gone (message_docs db) mid t"
  shows "gone (message_docs (snd (post_message db f u b i now))) mid t"
  using assms
  by (auto simp: post_message_def Let_def gone_save_new split: option.splits)


lemma gone_route:
  "gone (message_docs db) mid t \<Longrightarrow> gone (message_docs (snd (route db f now rq))) mid t"
  by (cases rq) (simp_all add: gone_post gone_put gone_delete gone_react gone_unreact)

lemma gone_serve:
  "gone (message_docs db) mid t \<Longrightarrow> gone (message_docs (serve db rqs)) mid t"
proof (induction rqs arbitrary: db)
  case Nil
  then show ?case by simp
next
  case (Cons rq rqs)
  obtain f now q where rq: "rq = (f, now, q)" by (cases rq) auto
  from Cons.prems have "gone (message_docs (snd (route db f now q))) mid t"
    by (rule gone_route)
  then show ?case using Cons.IH by (simp add: rq)
qed

text \<open>
  Whatever the page and the limit, the route that reads lists messages of the room that
  are not marked deleted, each with its references populated, and nothing else. A document
  it carries, listed or populated, is a document of the collection.
\<close>

lemma v_doc_populate: "v_doc (populate db a b c m) = m"
  by (simp add: populate_def)

lemma populate_message_in: "populate_message ms r = Doc d \<Longrightarrow> d \<in> set ms"
  by (auto simp: populate_message_def find_Some_iff split: option.splits)

lemma carried_docs_populate:
  "set (carried_docs (populate db a b c m)) \<subseteq> insert m (set (message_docs db))"
  by (auto simp: carried_docs_def populate_def unpopulated_def
      dest: populate_message_in populate_message_in [OF sym]
      split: populated.splits option.splits if_splits)

lemma page_subset:
  "set (apply_limit n (drop k (newest_first ms))) \<subseteq> set ms"
proof -
  have "set (apply_limit n xs) \<subseteq> set xs" for xs
    by (auto simp: apply_limit_def dest: in_set_takeD)
  from this [of "drop k (newest_first ms)"] set_drop_subset [of k "newest_first ms"]
  show ?thesis by (auto simp: newest_first_def)
qed

lemma returned_get_views:
  assumes "v \<in> set (returned_messages (get_messages db f u r p l))"
  shows "\<exists>m. m \<in> set (query_room_messages (message_docs db) r)
            \<and> v = populate db True True True m"
proof -
  let ?found = "query_room_messages (message_docs db) r"
  let ?page = "apply_limit (or_default l 50)
      (drop (nat ((or_default p 1 - 1) * or_default l 50)) (newest_first ?found))"
  have "set (returned_messages (get_messages db f u r p l))
          \<subseteq> populate db True True True ` set ?page"
    by (simp add: get_messages_def Let_def server_error_def reply_def returned_messages_def
        split: option.splits)
  with assms obtain m where "m \<in> set ?page" and "v = populate db True True True m"
    by auto
  with page_subset [of "or_default l 50" _ ?found] show ?thesis by blast
qed

lemma answer_docs_stored:
  assumes "d \<in> set (answer_docs (get_messages db f u r p l))"
  shows "d \<in> set (message_docs db)"
proof -
  from assms obtain v where v: "v \<in> set (returned_messages (get_messages db f u r p l))"
    and d: "d \<in> set (carried_docs v)"
    by (auto simp: answer_docs_def)
  from returned_get_views [OF v] obtain m
    where m: "m \<in> set (query_room_messages (message_docs db) r)"
      and e: "v = populate db True True True m" by blast
  from m have "m \<in> set (message_docs db)" by (simp add: query_room_messages_def)
  with d e carried_docs_populate [of db True True True m] show ?thesis by auto
qed

lemma gone_get:
  assumes "gone (message_docs db) mid t"
  shows "mid \<notin> set (map (\<lambda>v. msg_id (v_doc v))
                   (returned_messages (get_messages db f u r p l)))"
proof
  assume "mid \<in> set (map (\<lambda>v. msg_id (v_doc v))
                   (returned_messages (get_messages db f u r p l)))"
  then obtain v where v: "v \<in> set (returned_messages (get_messages db f u r p l))"
    and e: "msg_id (v_doc v) = mid" by auto
  from returned_get_views [OF v] obtain m
    where m: "m \<in> set (query_room_messages (message_docs db) r)"
      and w: "v = populate db True True True m" by blast
  from m have "m \<in> set (message_docs db)" "\<not> isDeleted m"
    by (auto simp: query_room_messages_def)
  with e w have "m \<in> set (filter (\<lambda>m. msg_id m = mid \<and> \<not> tombstone t m) (message_docs db))"
    by (simp add: v_doc_populate tombstone_def)
  with assms show False by (simp add: gone_def)
qed

lemma gone_carried:
  assumes "gone (message_docs db) mid t"
    and "d \<in> set (answer_docs (get_messages db f u r p l))" and "msg_id d = mid"
  shows "tombstone t d"
proof (rule ccontr)
  assume "\<not> tombstone t d"
  with answer_docs_stored [OF assms(2)] assms(3)
  have "d \<in> set (filter (\<lambda>m. msg_id m = mid \<and> \<not> tombstone t m) (message_docs db))" by simp
  with assms(1) show False by (simp add: gone_def)
qed

text \<open>
  Where the ids are distinct, the document the sender's request finds is the one that
  is saved.
\<close>

lemma fresh_id_differs:
  "i \<notin> set (map msg_id ds) \<Longrightarrow> d \<in> set ds \<Longrightarrow> msg_id d \<noteq> i"
  by force

lemma find_own_distinct:
  assumes "distinct (map msg_id ds)" and "m \<in> set ds" and "sender m = u"
    and "\<not> isDeleted m"
  shows "find_own_message ds (msg_id m) u = Some m"
  using assms(1,2)
proof (induction ds)
  case Nil
  then show ?case by simp
next
  case (Cons d ds)
  show ?case
  proof (cases "d = m")
    case True
    with assms(3,4) show ?thesis by (simp add: find_own_message_def)
  next
    case False
    with Cons.prems have in_tl: "m \<in> set ds" by simp
    from Cons.prems(1) have "msg_id d \<notin> set (map msg_id ds)" by simp
    from fresh_id_differs [OF this in_tl] have "msg_id d \<noteq> msg_id m" by simp
    moreover from Cons.prems(1) have "distinct (map msg_id ds)" by simp
    ultimately show ?thesis using Cons.IH in_tl by (simp add: find_own_message_def)
  qed
qed

lemma replace_doc_find:
  "msg_id m' = msg_id m \<Longrightarrow> m \<in> set ds \<Longrightarrow>
   find (\<lambda>d. msg_id d = msg_id m) (replace_doc m' ds) = Some m'"
  by (induction ds) auto

lemma replace_doc_gone:
  assumes "distinct (map msg_id ds)" and "m \<in> set ds" and "msg_id m' = msg_id m"
    and "tombstone t m'"
  shows "gone (replace_doc m' ds) (msg_id m) t"
  using assms
proof (induction ds)
  case Nil
  then show ?case by simp
next
  case (Cons d ds)
  show ?case
  proof (cases "msg_id d = msg_id m")
    case True
    with Cons.prems(1) have "msg_id m \<notin> set (map msg_id ds)" by simp
    from fresh_id_differs [OF this]
    have "filter (\<lambda>x. msg_id x = msg_id m \<and> \<not> tombstone t x) ds = []"
      by (simp add: filter_empty_conv)
    with True Cons.prems(3,4) show ?thesis by (simp add: gone_def)
  next
    case False
    with Cons.prems have "m \<in> set ds" by auto
    moreover from Cons.prems(1) have "distinct (map msg_id ds)" by simp
    ultimately have "gone (replace_doc m' ds) (msg_id m) t"
      using Cons.IH Cons.prems(3,4) by simp
    with False Cons.prems(3) show ?thesis by (simp add: gone_def)
  qed
qed

lemma delete_own_message:
  assumes "distinct (map msg_id (message_docs db))"
    and "m \<in> set (message_docs db)" and "msg_id m = mid" and "sender m = userId"
    and "\<not> isDeleted m" and "fault \<noteq> Some 0" and "fault \<noteq> Some 1"
  shows "delete_message db fault userId mid now =
           (reply 200 ''Message deleted successfully'',
            db\<lparr>message_docs := replace_doc
                 (m\<lparr>isDeleted := True, deletedAt := Some now,
                    content := Some ''This message was deleted'', updatedAt := now\<rparr>)
                 (message_docs db)\<rparr>)"
proof -
  have "find_own_message (message_docs db) mid userId = Some m"
    using find_own_distinct [OF assms(1,2,4,5)] assms(3) by simp
  moreover have "schema_valid (m\<lparr>isDeleted := True, deletedAt := Some now,
                    content := Some ''This message was deleted''\<rparr>)"
    by (simp add: schema_valid_def)
  ultimately show ?thesis
    using assms(6,7) by (simp add: delete_message_def Let_def save_existing_def)
qed

text \<open>
  A thread: in the room \<open>r1\<close> of two messages, \<^verbatim>\<open>u-bob\<close> posts the reply \<open>m3\<close> to
  the message \<open>m1\<close> of \<^verbatim>\<open>u-alice\<close>, who then deletes \<open>m1\<close>.
\<close>

lemma db_replied_eq:
  "db_replied = db_chat\<lparr>message_docs := [msg_m1, msg_m2, msg_m3],
       room_docs := [room_chat\<lparr>lastMessage := Some ''m3'', room_updatedAt := 30\<rparr>]\<rparr>"
proof -
  have t: "trim ''which one?'' = ''which one?''" by (simp add: trim_def is_space_def)
  have v: "post_validation reply_body = []"
    by (simp add: post_validation_def reply_body_def t)
  have b: "b_content reply_body = Some ''which one?''" "b_roomId reply_body = Some ''r1''"
    "b_messageType reply_body = None" "b_attachments reply_body = None"
    "b_replyTo reply_body = Some ''m1''"
    by (simp_all add: reply_body_def)
  have rd: "room_docs db_chat = [room_chat]" by (simp add: db_chat_def)
  have r: "find_member_room [room_chat] ''r1'' ''u-bob'' = Some room_chat"
    by (simp add: find_member_room_def room_chat_def)
  have n: "new_Message ''m3'' (Some ''which one?'') ''u-bob'' ''r1'' ''text'' [] (Some ''m1'') 30
       = msg_m3"
    by (simp add: new_Message_def msg_m3_def t)
  have s: "save_new db_chat 30 msg_m3
       = Some (db_chat\<lparr>message_docs := [msg_m1, msg_m2, msg_m3]\<rparr>)"
    by (simp add: save_new_def schema_valid_def db_chat_def msg_m1_def msg_m2_def msg_m3_def)
  have l: "set_lastMessage [room_chat] ''r1'' ''m3'' 30
       = [room_chat\<lparr>lastMessage := Some ''m3'', room_updatedAt := 30\<rparr>]"
    by (simp add: set_lastMessage_def room_chat_def)
  have "snd (post_message db_chat None ''u-bob'' reply_body ''m3'' 30)
      = db_chat\<lparr>message_docs := [msg_m1, msg_m2, msg_m3],
          room_docs := [room_chat\<lparr>lastMessage := Some ''m3'', room_updatedAt := 30\<rparr>]\<rparr>"
    using r by (simp add: post_message_def Let_def v n s l b rd or_default_def t falsy_string_def)
  then show ?thesis by (simp add: db_replied_def)
qed

lemma db_replied_docs: "message_docs db_replied = [msg_m1, msg_m2, msg_m3]"
  by (simp add: db_replied_eq)

lemma delete_replied:
  "delete_message db_replied None ''u-alice'' ''m1'' 1000
     = (reply 200 ''Message deleted successfully'',
        db_replied\<lparr>message_docs := [msg_m1_deleted, msg_m2, msg_m3]\<rparr>)"
proof -
  have d: "distinct (map msg_id (message_docs db_replied))"
    by (simp add: db_replied_docs msg_m1_def msg_m2_def msg_m3_def)
  have m: "msg_m1 \<in> set (message_docs db_replied)" by (simp add: db_replied_docs)
  have p: "msg_id msg_m1 = ''m1''" "sender msg_m1 = ''u-alice''" "\<not> isDeleted msg_m1"
    by (simp_all add: msg_m1_def)
  have r: "replace_doc msg_m1_deleted [msg_m1, msg_m2, msg_m3]
       = [msg_m1_deleted, msg_m2, msg_m3]"
    by (simp add: msg_m1_deleted_def msg_m1_def)
  from delete_own_message [OF d m p, of None 1000] r show ?thesis
    by (simp add: db_replied_docs msg_m1_deleted_def)
qed

lemma get_replied_deleted:
  "returned_messages
     (get_messages (db_replied\<lparr>message_docs := [msg_m1_deleted, msg_m2, msg_m3]\<rparr>)
        None ''u-bob'' ''r1'' None None)
   = [\<lparr>v_doc = msg_m2, v_sender = Doc bob_view, v_replyTo = NoDoc, v_reaction_users = []\<rparr>,
      \<lparr>v_doc = msg_m3, v_sender = Doc bob_view, v_replyTo = Doc msg_m1_deleted,
        v_reaction_users = []\<rparr>]"
proof -
  let ?db = "db_replied\<lparr>message_docs := [msg_m1_deleted, msg_m2, msg_m3]\<rparr>"
  have r: "find_member_room (room_docs ?db) ''r1'' ''u-bob''
       = Some (room_chat\<lparr>lastMessage := Some ''m3'', room_updatedAt := 30\<rparr>)"
    by (simp add: db_replied_eq find_member_room_def room_chat_def)
  have q: "query_room_messages [msg_m1_deleted, msg_m2, msg_m3] ''r1'' = [msg_m2, msg_m3]"
    by (simp add: query_room_messages_def msg_m1_deleted_def msg_m1_def msg_m2_def msg_m3_def)
  have o: "newest_first [msg_m2, msg_m3] = [msg_m3, msg_m2]"
    by (simp add: newest_first_def msg_m2_def msg_m3_def)
  have u: "user_docs db_replied = user_docs db_chat" by (simp add: db_replied_eq)
  have p2: "populate ?db True True True msg_m2
       = \<lparr>v_doc = msg_m2, v_sender = Doc bob_view, v_replyTo = NoDoc, v_reaction_users = []\<rparr>"
    by (simp add: populate_def u populate_user_def populate_message_def db_chat_def
        bob_view_def msg_m2_def)
  have p3: "populate ?db True True True msg_m3
       = \<lparr>v_doc = msg_m3, v_sender = Doc bob_view, v_replyTo = Doc msg_m1_deleted,
          v_reaction_users = []\<rparr>"
    by (simp add: populate_def u populate_user_def populate_message_def db_chat_def
        bob_view_def msg_m3_def msg_m1_deleted_def msg_m1_def)
  show ?thesis
    using r
    by (simp add: get_messages_def Let_def or_default_def q o p2 p3 apply_limit_def
        returned_messages_def)
qed

text \<open>
  C10 says that after the soft delete the route that reads never returns the message. As
  the claim states it, this fails. In the room \<open>r1\<close> the user \<^verbatim>\<open>u-bob\<close> posts a reply
  \<open>m3\<close> to the message \<open>m1\<close> of \<^verbatim>\<open>u-alice\<close>, who then deletes \<open>m1\<close>. The route
  that reads lists \<open>m2\<close> and \<open>m3\<close>, and \<open>m3\<close> carries, populated in its \<^verbatim>\<open>replyTo\<close>,
  the document of \<open>m1\<close> as the delete has left it.
\<close>

theorem soft_deleted_returned_in_reply:
  "status (fst (delete_message db_replied None ''u-alice'' ''m1'' 1000)) = 200
   \<and> map (\<lambda>v. msg_id (v_doc v)) (returned_messages
        (get_messages (snd (delete_message db_replied None ''u-alice'' ''m1'' 1000))
           None ''u-bob'' ''r1'' None None)) = [''m2'', ''m3'']
   \<and> map v_replyTo (returned_messages
        (get_messages (snd (delete_message db_replied None ''u-alice'' ''m1'' 1000))
           None ''u-bob'' ''r1'' None None)) = [NoDoc, Doc msg_m1_deleted]
   \<and> msg_id msg_m1_deleted = ''m1''
   \<and> ''m1'' \<in> set (map msg_id (answer_docs
        (get_messages (snd (delete_message db_replied None ''u-alice'' ''m1'' 1000))
           None ''u-bob'' ''r1'' None None)))"
proof -
  have ids: "msg_id msg_m1_deleted = ''m1''" "msg_id msg_m2 = ''m2''" "msg_id msg_m3 = ''m3''"
    by (simp_all add: msg_m1_deleted_def msg_m1_def msg_m2_def msg_m3_def)
  show ?thesis
    by (simp add: delete_replied get_replied_deleted answer_docs_def carried_docs_def
        reply_def ids)
qed

text \<open>
  C10, amended. The sender of a message that is not deleted deletes it with
  \<^verbatim>\<open>DELETE /api/messages/:id\<close>, the two database calls of the handler succeeding. The
  answer is 200 and no document is removed: the collection has the same ids, and the
  document of the message is now marked \<^verbatim>\<open>isDeleted\<close>, has \<^verbatim>\<open>deletedAt\<close> set to
  the time of the request and the content \<^verbatim>\<open>This message was deleted\<close>. From then on
  the message is not among the messages \<^verbatim>\<open>GET /api/messages/:roomId\<close> lists, for any
  user, room, page and limit, neither at once nor after any further requests to the routes
  that write messages; where the answer carries its document at all, populated in a
  message that replies to it, it is the document as the delete has left it. The ids of the
  collection are distinct, as the database guarantees.
\<close>

theorem soft_delete_unlisted:
  assumes "distinct (map msg_id (message_docs db))"
    and "m \<in> set (message_docs db)" and "msg_id m = mid" and "sender m = userId"
    and "\<not> isDeleted m" and "fault \<noteq> Some 0" and "fault \<noteq> Some 1"
    and "delete_message db fault userId mid now = (resp, db')"
  shows "status resp = 200
       \<and> map msg_id (message_docs db') = map msg_id (message_docs db)
       \<and> (\<exists>d. find (\<lambda>d. msg_id d = mid) (message_docs db') = Some d
              \<and> isDeleted d \<and> deletedAt d = Some now
              \<and> content d = Some ''This message was deleted''
              \<and> sender d = userId \<and> room d = room m \<and> createdAt d = createdAt m)
       \<and> mid \<notin> set (map (\<lambda>v. msg_id (v_doc v))
                   (returned_messages (get_messages db' f u r p l)))
       \<and> mid \<notin> set (map (\<lambda>v. msg_id (v_doc v))
                   (returned_messages (get_messages (serve db' rqs) f u r p l)))
       \<and> (\<forall>d \<in> set (answer_docs (get_messages (serve db' rqs) f u r p l)).
             msg_id d = mid \<longrightarrow>
             isDeleted d \<and> deletedAt d = Some now
             \<and> content d = Some ''This message was deleted'')"
proof -
  let ?d = "m\<lparr>isDeleted := True, deletedAt := Some now,
               content := Some ''This message was deleted'', updatedAt := now\<rparr>"
  from delete_own_message [OF assms(1-7)] assms(8)
  have resp: "resp = reply 200 ''Message deleted successfully''"
    and docs: "message_docs db' = replace_doc ?d (message_docs db)"
    by auto
  have id: "msg_id ?d = msg_id m" by simp
  have tomb: "tombstone now ?d" by (simp add: tombstone_def)
  have st: "status resp = 200" by (simp add: resp reply_def)
  have ids: "map msg_id (message_docs db') = map msg_id (message_docs db)"
    by (simp add: docs replace_doc_ids)
  from replace_doc_find [OF id assms(2)] assms(3)
  have fnd: "find (\<lambda>d. msg_id d = mid) (message_docs db') = Some ?d"
    by (simp add: docs)
  have g: "gone (message_docs db') mid now"
    using replace_doc_gone [OF assms(1,2) id tomb] assms(3) by (simp add: docs)
  have hid: "mid \<notin> set (map (\<lambda>v. msg_id (v_doc v))
                   (returned_messages (get_messages db' f u r p l)))"
    by (rule gone_get [OF g])
  have hid': "mid \<notin> set (map (\<lambda>v. msg_id (v_doc v))
                   (returned_messages (get_messages (serve db' rqs) f u r p l)))"
    by (rule gone_get [OF gone_serve [OF g]])
  have nested: "\<forall>d \<in> set (answer_docs (get_messages (serve db' rqs) f u r p l)).
             msg_id d = mid \<longrightarrow>
             isDeleted d \<and> deletedAt d = Some now
             \<and> content d = Some ''This message was deleted''"
    using gone_carried [OF gone_serve [OF g]] by (auto simp: tombstone_def)
  from st ids fnd hid hid' nested assms(4) show ?thesis by simp
qed

theorem soft_delete_unlisted_witness:
  "distinct (map msg_id (message_docs db_replied))
   \<and> msg_m1 \<in> set (message_docs db_replied) \<and> msg_id msg_m1 = ''m1''
   \<and> sender msg_m1 = ''u-alice'' \<and> \<not> isDeleted msg_m1
   \<and> status (fst (delete_message db_replied None ''u-alice'' ''m1'' 1000)) = 200
   \<and> map msg_id (message_docs (snd (delete_message db_replied None ''u-alice'' ''m1'' 1000)))
       = [''m1'', ''m2'', ''m3'']
   \<and> ''m1'' \<notin> set (map (\<lambda>v. msg_id (v_doc v)) (returned_messages
         (get_messages (snd (delete_message db_replied None ''u-alice'' ''m1'' 1000))
            None ''u-bob'' ''r1'' None None)))
   \<and> ''m1'' \<notin> set (map (\<lambda>v. msg_id (v_doc v)) (returned_messages
         (get_messages (serve (snd (delete_message db_replied None ''u-alice'' ''m1'' 1000))
              [(None, 2000, Put ''u-alice'' ''m1'' (Some ''again''))])
            None ''u-bob'' ''r1'' None None)))
   \<and> msg_m1_deleted \<in> set (answer_docs
         (get_messages (snd (delete_message db_replied None ''u-alice'' ''m1'' 1000))
            None ''u-bob'' ''r1'' None None))
   \<and> isDeleted msg_m1_deleted \<and> deletedAt msg_m1_deleted = Some 1000
   \<and> content msg_m1_deleted = Some ''This message was deleted''"
proof -
  let ?db' = "snd (delete_message db_replied None ''u-alice'' ''m1'' 1000)"
  have h1: "distinct (map msg_id (message_docs db_replied))"
    by (simp add: db_replied_docs msg_m1_def msg_m2_def msg_m3_def)
  have h2: "msg_m1 \<in> set (message_docs db_replied)" by (simp add: db_replied_docs)
  have h3: "msg_id msg_m1 = ''m1''" by (simp add: msg_m1_def)
  have h4: "sender msg_m1 = ''u-alice''" by (simp add: msg_m1_def)
  have h5: "\<not> isDeleted msg_m1" by (simp add: msg_m1_def)
  have h6: "(None :: nat option) \<noteq> Some 0" and h7: "(None :: nat option) \<noteq> Some 1"
    by simp_all
  have h8: "delete_message db_replied None ''u-alice'' ''m1'' 1000
      = (fst (delete_message db_replied None ''u-alice'' ''m1'' 1000), ?db')" by simp
  have ids: "map msg_id (message_docs db_replied) = [''m1'', ''m2'', ''m3'']"
    by (simp add: db_replied_docs msg_m1_def msg_m2_def msg_m3_def)
  have carried: "msg_m1_deleted \<in> set (answer_docs
         (get_messages ?db' None ''u-bob'' ''r1'' None None))"
    by (simp add: delete_replied get_replied_deleted answer_docs_def carried_docs_def)
  have i: "msg_id msg_m1_deleted = ''m1''" by (simp add: msg_m1_deleted_def msg_m1_def)
  note t = soft_delete_unlisted [OF h1 h2 h3 h4 h5 h6 h7 h8,
      of None "''u-bob''" "''r1''" None None]
  from t [of "[]"] carried i
  have tomb: "isDeleted msg_m1_deleted \<and> deletedAt msg_m1_deleted = Some 1000
      \<and> content msg_m1_deleted = Some ''This message was deleted''"
    by auto
  from t [of "[(None, 2000, Put ''u-alice'' ''m1'' (Some ''again''))]"]
    h1 h2 h3 h4 h5 ids carried tomb
  show ?thesis by simp
qed

section \<open>Sending a message from the chat room\<close>

text \<open>
  The route that stores a message answers 201 when it has stored it, and with an error
  status otherwise.
\<close>

lemma post_message_status:
  "status (fst (post_message db f u b i now)) \<in> {201, 400, 404, 500}"
  by (auto simp: post_message_def Let_def server_error_def reply_def split: option.splits)

lemma post_message_created:
  assumes "status (fst (post_message db f u b i now)) = 201"
  shows "message_docs (snd (post_message db f u b i now))
           = message_docs db
             @ [new_Message i (map_option trim (b_content b)) u (or_default (b_roomId b) [])
                  (or_default (b_messageType b) ''text'') (or_default (b_attachments b) [])
                  (b_replyTo b) now]
         \<and> i \<notin> set (map msg_id (message_docs db))
         \<and> find_member_room (room_docs db) (or_default (b_roomId b) []) u \<noteq> None"
  using assms
  by (auto simp: post_message_def Let_def server_error_def reply_def save_new_def
      new_Message_def split: option.splits if_splits)

lemma dropWhile_snoc_keeps_last:
  "\<not> P x \<Longrightarrow> \<exists>zs. dropWhile P (ys @ [x]) = zs @ [x]"
  by (induction ys) auto

lemma trim_idem: "trim (trim s) = trim s"
proof (cases "dropWhile is_space s")
  case Nil
  show ?thesis unfolding trim_def Nil by simp
next
  case (Cons x t)
  then have nx: "\<not> is_space x" using hd_dropWhile [of is_space s] by auto
  from nx dropWhile_snoc_keeps_last [of is_space x "rev t"]
  obtain zs where zs: "dropWhile is_space (rev t @ [x]) = zs @ [x]" by blast
  have tr: "trim s = x # rev zs" by (simp add: trim_def Cons zs)
  have "dropWhile is_space (zs @ [x]) = zs @ [x]"
    using dropWhile_idem [of is_space "rev t @ [x]"] by (simp add: zs)
  with nx have "trim (x # rev zs) = x # rev zs" by (simp add: trim_def)
  then show ?thesis by (simp only: tr)
qed

lemma axios_failure_keeps_io:
  "srv_io (snd (axios_post_messages srv e b)) = srv_io srv"
  by (simp add: axios_post_messages_def Let_def split: option.splits)

lemma axios_success:
  assumes "fst (axios_post_messages srv e b) = Inr resp"
  shows "\<exists>u. e_auth e = Some u \<and> e_network e
           \<and> resp = fst (post_message (srv_db srv) (e_fault e) u b (e_new_id e) (e_now e))
           \<and> status resp = 201
           \<and> srv_db (snd (axios_post_messages srv e b))
               = snd (post_message (srv_db srv) (e_fault e) u b (e_new_id e) (e_now e))"
proof (cases "e_auth e")
  case None
  with assms show ?thesis by (simp add: axios_post_messages_def split: if_splits)
next
  case (Some u)
  let ?r = "post_message (srv_db srv) (e_fault e) u b (e_new_id e) (e_now e)"
  from assms Some have net: "e_network e" and ok: "200 \<le> status (fst ?r) \<and> status (fst ?r) < 300"
    and r: "resp = fst ?r"
    by (auto simp: axios_post_messages_def Let_def split: if_splits)
  from post_message_status [of "srv_db srv" "e_fault e" u b "e_new_id e" "e_now e"] ok
  have "status (fst ?r) = 201" by auto
  with Some net r show ?thesis by (simp add: axios_post_messages_def Let_def)
qed

text \<open>
  C3, amended. \<^verbatim>\<open>handleSendMessage\<close>, called with a text that is not blank, posts the
  message to \<^verbatim>\<open>/api/messages\<close> first and emits \<^verbatim>\<open>send_message\<close> on the socket
  only when the request has succeeded. When the request fails, for whatever reason
  (a failure of the store included), nothing is emitted, so that no connection receives
  the message; the error is written to the console of the sender, and the text typed is
  kept. When it succeeds, the message is in the store, under the id the store gave it,
  before the event is emitted; what is emitted to the other subscribers of the room is the
  object built by the client, with the keys \<^verbatim>\<open>content\<close>, \<^verbatim>\<open>roomId\<close>,
  \<^verbatim>\<open>sender\<close> and \<^verbatim>\<open>timestamp\<close>, which does not carry that id.
\<close>

theorem send_posts_before_emitting:
  assumes "trim (c_newMessage c) \<noteq> []"
  shows "(\<forall>err. fst (axios_post_messages srv e (posted_body c)) = Inl err \<longrightarrow>
            o_emitted (handleSendMessage srv c e) = []
            \<and> o_console (handleSendMessage srv c e) = [''Error sending message:'']
            \<and> o_client (handleSendMessage srv c e) = c)
       \<and> (\<forall>resp s. fst (axios_post_messages srv e (posted_body c)) = Inr resp
                    \<and> c_socket c = Some s \<longrightarrow>
            (\<exists>u m. e_auth e = Some u
               \<and> message_docs (srv_db (o_server (handleSendMessage srv c e)))
                   = message_docs (srv_db srv) @ [m]
               \<and> msg_id m = e_new_id e \<and> content m = Some (trim (c_newMessage c))
               \<and> sender m = u \<and> room m = c_room c \<and> \<not> isDeleted m)
            \<and> (\<exists>rest. o_emitted (handleSendMessage srv c e)
                 = \<lparr>ev = ''receive_message'', payload = messageData c e,
                    recipients = subscribers (srv_io srv) (JStr (c_room c)) - {s}\<rparr> # rest)
            \<and> keys (messageData c e) = [''content'', ''roomId'', ''sender'', ''timestamp'']
            \<and> get_prop (messageData c e) ''_id'' = JUndefined)"
proof -
  let ?b = "posted_body c"
  let ?out = "handleSendMessage srv c e"
  have failing: "\<forall>err. fst (axios_post_messages srv e ?b) = Inl err \<longrightarrow>
            o_emitted ?out = [] \<and> o_console ?out = [''Error sending message:'']
            \<and> o_client ?out = c"
    using assms by (simp add: handleSendMessage_def Let_def)
  have passing: "(\<exists>u m. e_auth e = Some u
               \<and> message_docs (srv_db (o_server ?out)) = message_docs (srv_db srv) @ [m]
               \<and> msg_id m = e_new_id e \<and> content m = Some (trim (c_newMessage c))
               \<and> sender m = u \<and> room m = c_room c \<and> \<not> isDeleted m)
            \<and> (\<exists>rest. o_emitted ?out
                 = \<lparr>ev = ''receive_message'', payload = messageData c e,
                    recipients = subscribers (srv_io srv) (JStr (c_room c)) - {s}\<rparr> # rest)
            \<and> keys (messageData c e) = [''content'', ''roomId'', ''sender'', ''timestamp'']
            \<and> get_prop (messageData c e) ''_id'' = JUndefined"
    if ok: "fst (axios_post_messages srv e ?b) = Inr resp" and sk: "c_socket c = Some s"
    for resp s
  proof -
    from axios_success [OF ok] obtain u where u: "e_auth e = Some u"
      and st: "status (fst (post_message (srv_db srv) (e_fault e) u ?b (e_new_id e) (e_now e)))
                 = 201"
      and db: "srv_db (snd (axios_post_messages srv e ?b))
                 = snd (post_message (srv_db srv) (e_fault e) u ?b (e_new_id e) (e_now e))"
      by auto
    have srv1: "o_server ?out = snd (axios_post_messages srv e ?b)"
      using assms ok by (simp add: handleSendMessage_def Let_def)
    let ?m = "new_Message (e_new_id e) (map_option trim (b_content ?b)) u
                (or_default (b_roomId ?b) []) (or_default (b_messageType ?b) ''text'')
                (or_default (b_attachments ?b) []) (b_replyTo ?b) (e_now e)"
    from post_message_created [OF st]
    have docs: "message_docs (srv_db (o_server ?out)) = message_docs (srv_db srv) @ [?m]"
      by (simp add: srv1 db)
    have m: "msg_id ?m = e_new_id e \<and> content ?m = Some (trim (c_newMessage c))
               \<and> sender ?m = u \<and> room ?m = c_room c \<and> \<not> isDeleted ?m"
      by (simp add: new_Message_def posted_body_def or_default_def trim_idem)
    from u docs m
    have stored: "\<exists>u m. e_auth e = Some u
               \<and> message_docs (srv_db (o_server ?out)) = message_docs (srv_db srv) @ [m]
               \<and> msg_id m = e_new_id e \<and> content m = Some (trim (c_newMessage c))
               \<and> sender m = u \<and> room m = c_room c \<and> \<not> isDeleted m"
      by blast
    have sent: "sendMessage (snd (axios_post_messages srv e ?b)) (c_socket c) (messageData c e)
        = [\<lparr>ev = ''receive_message'', payload = messageData c e,
            recipients = subscribers (srv_io srv) (JStr (c_room c)) - {s}\<rparr>]"
      by (simp add: sendMessage_def sk send_message_def socket_to_emit_def messageData_def
          axios_failure_keeps_io subscribers_def)
    have emitted: "\<exists>rest. o_emitted ?out
                 = \<lparr>ev = ''receive_message'', payload = messageData c e,
                    recipients = subscribers (srv_io srv) (JStr (c_room c)) - {s}\<rparr> # rest"
      using assms ok sent by (simp add: handleSendMessage_def Let_def)
    have fields: "keys (messageData c e) = [''content'', ''roomId'', ''sender'', ''timestamp'']"
      "get_prop (messageData c e) ''_id'' = JUndefined"
      by (simp_all add: messageData_def)
    from stored emitted fields show ?thesis by (intro conjI)
  qed
  from failing passing show ?thesis by blast
qed

lemma srv_chat_r1: "rooms (srv_io srv_chat) (JStr ''r1'') = {''sA'', ''sB''}"
  by (auto simp: srv_chat_def io_empty_def join_room_def connection_def socket_join_def)

lemma post_ok_chat:
  "post_message db_chat None ''u-alice'' (posted_body client_alice) ''m3'' 30
     = (\<lparr>status = 201, body = MessageData ''Message sent successfully''
           (populate (db_chat\<lparr>message_docs := [msg_m1, msg_m2,
                new_Message ''m3'' (Some ''hello'') ''u-alice'' ''r1'' ''text'' [] None 30]\<rparr>)
              True True False
              (new_Message ''m3'' (Some ''hello'') ''u-alice'' ''r1'' ''text'' [] None 30))\<rparr>,
        db_chat\<lparr>message_docs := [msg_m1, msg_m2,
                     new_Message ''m3'' (Some ''hello'') ''u-alice'' ''r1'' ''text'' [] None 30],
                 room_docs := [room_chat\<lparr>lastMessage := Some ''m3'', room_updatedAt := 30\<rparr>]\<rparr>)"
proof -
  have t: "trim ''hello'' = ''hello''" by (simp add: trim_def is_space_def)
  have v: "post_validation (posted_body client_alice) = []"
    by (simp add: post_validation_def posted_body_def client_alice_def t message_types_def)
  have r: "find_member_room (room_docs db_chat) ''r1'' ''u-alice'' = Some room_chat"
    by (simp add: find_member_room_def db_chat_def room_chat_def)
  have n: "new_Message ''m3'' (Some ''hello'') ''u-alice'' ''r1'' ''text'' [] None 30
       = \<lparr>msg_id = ''m3'', content = Some ''hello'', sender = ''u-alice'', room = ''r1'',
          messageType = ''text'', attachments = [], replyTo = None, editedAt = None,
          isEdited = False, isDeleted = False, deletedAt = None, reactions = [],
          createdAt = 30, updatedAt = 30\<rparr>"
    by (simp add: new_Message_def t)
  have s: "save_new db_chat 30 (new_Message ''m3'' (Some ''hello'') ''u-alice'' ''r1'' ''text'' [] None 30)
       = Some (db_chat\<lparr>message_docs := [msg_m1, msg_m2,
              new_Message ''m3'' (Some ''hello'') ''u-alice'' ''r1'' ''text'' [] None 30]\<rparr>)"
    by (simp add: n save_new_def schema_valid_def db_chat_def msg_m1_def msg_m2_def)
  have l: "set_lastMessage [room_chat] ''r1'' ''m3'' 30
       = [room_chat\<lparr>lastMessage := Some ''m3'', room_updatedAt := 30\<rparr>]"
    by (simp add: set_lastMessage_def room_chat_def)
  have b: "b_content (posted_body client_alice) = Some ''hello''"
    "b_roomId (posted_body client_alice) = Some ''r1''"
    "b_messageType (posted_body client_alice) = Some ''text''"
    "b_attachments (posted_body client_alice) = None"
    "b_replyTo (posted_body client_alice) = None"
    by (simp_all add: posted_body_def client_alice_def)
  have rd: "room_docs db_chat = [room_chat]" by (simp add: db_chat_def)
  show ?thesis
    using r by (simp add: post_message_def Let_def v s l b rd or_default_def t falsy_string_def)
qed

lemma post_down_chat:
  "post_message db_chat (Some 1) ''u-alice'' (posted_body client_alice) ''m3'' 30
     = (server_error, db_chat)"
proof -
  have t: "trim ''hello'' = ''hello''" by (simp add: trim_def is_space_def)
  have v: "post_validation (posted_body client_alice) = []"
    by (simp add: post_validation_def posted_body_def client_alice_def t message_types_def)
  have r: "find_member_room (room_docs db_chat) ''r1'' ''u-alice'' = Some room_chat"
    by (simp add: find_member_room_def db_chat_def room_chat_def)
  have b: "b_content (posted_body client_alice) = Some ''hello''"
    "b_roomId (posted_body client_alice) = Some ''r1''"
    "b_messageType (posted_body client_alice) = Some ''text''"
    "b_attachments (posted_body client_alice) = None"
    "b_replyTo (posted_body client_alice) = None"
    by (simp_all add: posted_body_def client_alice_def)
  show ?thesis
    by (simp add: post_message_def Let_def v r b or_default_def t falsy_string_def)
qed

lemma axios_ok_chat:
  "axios_post_messages srv_chat env_ok (posted_body client_alice)
     = (Inr \<lparr>status = 201, body = MessageData ''Message sent successfully''
           (populate (db_chat\<lparr>message_docs := [msg_m1, msg_m2,
                new_Message ''m3'' (Some ''hello'') ''u-alice'' ''r1'' ''text'' [] None 30]\<rparr>)
              True True False
              (new_Message ''m3'' (Some ''hello'') ''u-alice'' ''r1'' ''text'' [] None 30))\<rparr>,
        srv_chat\<lparr>srv_db := db_chat\<lparr>message_docs := [msg_m1, msg_m2,
                     new_Message ''m3'' (Some ''hello'') ''u-alice'' ''r1'' ''text'' [] None 30],
                 room_docs := [room_chat\<lparr>lastMessage := Some ''m3'', room_updatedAt := 30\<rparr>]\<rparr>\<rparr>)"
  using post_ok_chat
  by (simp add: axios_post_messages_def env_ok_def Let_def srv_chat_def)

lemma axios_down_chat:
  "axios_post_messages srv_chat env_db_down (posted_body client_alice)
     = (Inl (BadStatus 500), srv_chat)"
  using post_down_chat
  by (simp add: axios_post_messages_def env_db_down_def env_ok_def Let_def srv_chat_def
      server_error_def)

text \<open>
  C3 says that every message delivered carries the id the store has given it. As the
  claim states it, this fails. The user \<^verbatim>\<open>u-alice\<close> sends \<^verbatim>\<open>hello\<close> to the
  room \<open>r1\<close>, where the sockets \<open>sA\<close> (the sender's) and \<open>sB\<close> are subscribed; the
  request succeeds and the store gives the message the id \<open>m3\<close>. The message that \<open>sB\<close>
  receives is the object the client built before the request: it has the keys
  \<^verbatim>\<open>content\<close>, \<^verbatim>\<open>roomId\<close>, \<^verbatim>\<open>sender\<close> and \<^verbatim>\<open>timestamp\<close>, and the id
  \<open>m3\<close> is nowhere in it.
\<close>

theorem send_emits_no_store_id:
  "map msg_id (message_docs (srv_db (o_server (handleSendMessage srv_chat client_alice env_ok))))
     = [''m1'', ''m2'', ''m3'']
   \<and> o_emitted (handleSendMessage srv_chat client_alice env_ok)
     = [\<lparr>ev = ''receive_message'',
         payload = JObj [(''content'', JStr ''hello''), (''roomId'', JStr ''r1''),
                         (''sender'', JObj [(''id'', JStr ''u-alice''),
                                            (''username'', JStr ''alice'')]),
                         (''timestamp'', JNum 29)],
         recipients = {''sB''}\<rparr>,
        \<lparr>ev = ''user_typing'',
         payload = JObj [(''userId'', JStr ''u-alice''), (''username'', JStr ''alice''),
                         (''isTyping'', JBool False)],
         recipients = {''sB''}\<rparr>]"
proof -
  have t: "trim (c_newMessage client_alice) \<noteq> []"
    by (simp add: client_alice_def trim_def is_space_def)
  have d: "{''sA'', ''sB''} - {''sA''} = {''sB''}" by auto
  have ids: "map msg_id [msg_m1, msg_m2,
       new_Message ''m3'' (Some ''hello'') ''u-alice'' ''r1'' ''text'' [] None 30]
     = [''m1'', ''m2'', ''m3'']"
    by (simp add: msg_m1_def msg_m2_def new_Message_def)
  have m: "sendMessage (srv_chat\<lparr>srv_db := x\<rparr>) (Some ''sA'') (messageData client_alice env_ok)
     = [\<lparr>ev = ''receive_message'',
         payload = JObj [(''content'', JStr ''hello''), (''roomId'', JStr ''r1''),
                         (''sender'', JObj [(''id'', JStr ''u-alice''),
                                            (''username'', JStr ''alice'')]),
                         (''timestamp'', JNum 29)],
         recipients = {''sB''}\<rparr>]" for x
    by (simp add: sendMessage_def send_message_def socket_to_emit_def messageData_def
        client_alice_def env_ok_def user_alice_def srv_chat_r1 d)
  have ty: "sendTyping (srv_chat\<lparr>srv_db := x\<rparr>) (Some ''sA'') (typing_data client_alice False)
     = [\<lparr>ev = ''user_typing'',
         payload = JObj [(''userId'', JStr ''u-alice''), (''username'', JStr ''alice''),
                         (''isTyping'', JBool False)],
         recipients = {''sB''}\<rparr>]" for x
    by (simp add: sendTyping_def typing_def socket_to_emit_def typing_data_def
        client_alice_def user_alice_def js_or_def srv_chat_r1 d)
  have u: "\<not> nullish (c_user client_alice)" "c_socket client_alice = Some ''sA''"
    by (simp_all add: client_alice_def user_alice_def)
  show ?thesis
    using t by (simp add: handleSendMessage_def Let_def axios_ok_chat m ty u
        msg_m1_def msg_m2_def new_Message_def)
qed

theorem send_posts_before_emitting_witness:
  "trim (c_newMessage client_alice) \<noteq> []
   \<and> fst (axios_post_messages srv_chat env_db_down (posted_body client_alice))
       = Inl (BadStatus 500)
   \<and> o_emitted (handleSendMessage srv_chat client_alice env_db_down) = []
   \<and> o_console (handleSendMessage srv_chat client_alice env_db_down)
       = [''Error sending message:'']
   \<and> c_socket client_alice = Some ''sA''
   \<and> (\<exists>resp. fst (axios_post_messages srv_chat env_ok (posted_body client_alice)) = Inr resp)
   \<and> (\<exists>m. message_docs (srv_db (o_server (handleSendMessage srv_chat client_alice env_ok)))
            = message_docs (srv_db srv_chat) @ [m]
          \<and> msg_id m = ''m3'' \<and> content m = Some ''hello'')
   \<and> (\<exists>rest. o_emitted (handleSendMessage srv_chat client_alice env_ok)
         = \<lparr>ev = ''receive_message'', payload = messageData client_alice env_ok,
            recipients = {''sB''}\<rparr> # rest)"
proof -
  have t: "trim (c_newMessage client_alice) \<noteq> []"
    by (simp add: client_alice_def trim_def is_space_def)
  have t': "trim (c_newMessage client_alice) = ''hello''"
    by (simp add: client_alice_def trim_def is_space_def)
  have down: "fst (axios_post_messages srv_chat env_db_down (posted_body client_alice))
       = Inl (BadStatus 500)" by (simp add: axios_down_chat)
  have sk: "c_socket client_alice = Some ''sA''" by (simp add: client_alice_def)
  obtain resp where ok: "fst (axios_post_messages srv_chat env_ok (posted_body client_alice))
       = Inr resp" by (simp add: axios_ok_chat)
  have d: "subscribers (srv_io srv_chat) (JStr (c_room client_alice)) - {''sA''} = {''sB''}"
    by (simp add: subscribers_def client_alice_def srv_chat_r1 insert_Diff_if)
  have i: "e_new_id env_ok = ''m3''" by (simp add: env_ok_def)
  note a = send_posts_before_emitting [OF t, of srv_chat env_db_down]
  note b = send_posts_before_emitting [OF t, of srv_chat env_ok]
  from a down have A: "o_emitted (handleSendMessage srv_chat client_alice env_db_down) = []
      \<and> o_console (handleSendMessage srv_chat client_alice env_db_down)
          = [''Error sending message:'']" by blast
  from b ok sk have B: "(\<exists>u m. e_auth env_ok = Some u
        \<and> message_docs (srv_db (o_server (handleSendMessage srv_chat client_alice env_ok)))
            = message_docs (srv_db srv_chat) @ [m]
        \<and> msg_id m = e_new_id env_ok \<and> content m = Some (trim (c_newMessage client_alice))
        \<and> sender m = u \<and> room m = c_room client_alice \<and> \<not> isDeleted m)
      \<and> (\<exists>rest. o_emitted (handleSendMessage srv_chat client_alice env_ok)
           = \<lparr>ev = ''receive_message'', payload = messageData client_alice env_ok,
              recipients = subscribers (srv_io srv_chat) (JStr (c_room client_alice))
                - {''sA''}\<rparr> # rest)" by blast
  from t down sk ok A B show ?thesis
    by (simp only: d i t') blast
qed

section \<open>Typing, from the sender to the receivers\<close>




text \<open>
  The listener of a receiver keeps the events of its own room, which it recognises by
  \<^verbatim>\<open>data.roomId\<close>. The event the server emits has no \<^verbatim>\<open>roomId\<close>: whatever the
  inbound payload, the room and the list, the listener leaves the list as it is.
\<close>

lemma relayed_typing_leaves_list:
  assumes "typing io s data = Inr em"
  shows "on_user_typing roomId typingUsers (payload em) = Inr typingUsers"
  using assms
  by (auto simp: typing_def socket_to_emit_def on_user_typing_def strict_eq_def
      split: if_splits)




end
